theory Spec2Isabelle
  imports Main
begin

section \<open>JavaScript values\<close>

text \<open>
  The notification payload (\<open>content.data\<close>), the \<open>type\<close> field of a history record
  and the body of the backend's reply are untyped (\<open>any\<close>) in the source. They are
  modelled by the JSON-shaped values below, to which \<open>undefined\<close> is added. Numbers are
  integers: the program only tests them for truthiness and strict equality, and JSON
  carries no NaN.
\<close>

datatype jsval =
    JUndefined
  | JNull
  | JBool bool
  | JNum int
  | JStr string
  | JArr "jsval list"
  | JObj "(string \<times> jsval) list"

text \<open>JavaScript truthiness, as used by \<open>||\<close> and \<open>if\<close>.\<close>

fun truthy :: "jsval \<Rightarrow> bool" where
  "truthy JUndefined = False"
| "truthy JNull = False"
| "truthy (JBool b) = b"
| "truthy (JNum n) = (n \<noteq> 0)"
| "truthy (JStr s) = (s \<noteq> [])"
| "truthy (JArr xs) = True"
| "truthy (JObj kvs) = True"

text \<open>\<open>a || b\<close> on values.\<close>

definition js_or :: "jsval \<Rightarrow> jsval \<Rightarrow> jsval" where
  "js_or a b = (if truthy a then a else b)"

text \<open>
  \<open>v?.k\<close>: \<open>undefined\<close> when \<open>v\<close> is \<open>undefined\<close> or \<open>null\<close>, the property otherwise.
  The only keys the program reads are \<open>type\<close>, \<open>conversationId\<close> and \<open>success\<close>, which
  are not own properties of a primitive or of an array, so those yield \<open>undefined\<close>.
\<close>

fun opt_get :: "jsval \<Rightarrow> string \<Rightarrow> jsval" where
  "opt_get (JObj kvs) k = (case map_of kvs k of None \<Rightarrow> JUndefined | Some v \<Rightarrow> v)"
| "opt_get v k = JUndefined"

datatype js_error = TypeError | RangeError | Rejected "string option"

text \<open>\<open>v.k\<close>: as \<open>v?.k\<close>, but a TypeError on \<open>undefined\<close> and \<open>null\<close>.\<close>

fun get_prop :: "jsval \<Rightarrow> string \<Rightarrow> js_error + jsval" where
  "get_prop JUndefined k = Inl TypeError"
| "get_prop JNull k = Inl TypeError"
| "get_prop v k = Inr (opt_get v k)"

text \<open>
  \<open>a === b\<close>. Primitives compare by value. Objects and arrays compare by reference; the two
  sides of every comparison in this program come from different parses (a stored record
  against the incoming notification), so two objects are never the same reference.
\<close>

fun strict_eq :: "jsval \<Rightarrow> jsval \<Rightarrow> bool" where
  "strict_eq JUndefined JUndefined = True"
| "strict_eq JNull JNull = True"
| "strict_eq (JBool a) (JBool b) = (a = b)"
| "strict_eq (JNum a) (JNum b) = (a = b)"
| "strict_eq (JStr a) (JStr b) = (a = b)"
| "strict_eq a b = False"

text \<open>Decimal rendering of an integer, as a template literal renders a whole number.\<close>

definition digit_char :: "nat \<Rightarrow> char" where
  "digit_char d = ''0123456789'' ! d"

function string_of_nat :: "nat \<Rightarrow> string" where
  "string_of_nat n =
     (if n < 10 then [digit_char n] else string_of_nat (n div 10) @ [digit_char (n mod 10)])"
  by pat_completeness auto
termination
  by (relation "measure id") auto

declare string_of_nat.simps [simp del]

definition string_of_int :: "int \<Rightarrow> string" where
  "string_of_int i = (if i < 0 then CHR ''-'' # string_of_nat (nat (- i)) else string_of_nat (nat i))"

section \<open>NotificationHistoryScreen.tsx\<close>

subsection \<open>formatTimestamp\<close>

text \<open>
  \<open>Date.now()\<close> is the parameter \<open>now\<close>; \<open>toLocaleDateString\<close> is the platform's
  locale-dependent rendering of a date and is a parameter too. For a whole number of
  milliseconds \<open>diff\<close>, \<open>Math.floor(diff / k)\<close> is \<open>diff div k\<close>.
\<close>

definition formatTimestamp :: "(int \<Rightarrow> string) \<Rightarrow> int \<Rightarrow> int \<Rightarrow> string" where
  "formatTimestamp toLocaleDateString now timestamp =
     (let diff = now - timestamp in
      if diff < 60000 then ''Just now''
      else if diff < 3600000 then string_of_int (diff div 60000) @ ''m ago''
      else if diff < 86400000 then string_of_int (diff div 3600000) @ ''h ago''
      else if diff < 604800000 then string_of_int (diff div 86400000) @ ''d ago''
      else toLocaleDateString timestamp)"

subsection \<open>Records and the store\<close>

text \<open>
  The inbound notification, reduced to the four fields \<open>addNotificationToHistory\<close>
  reads: \<open>request.identifier\<close> and \<open>request.content.{title, body, data}\<close>. Title and
  body are \<open>string | null\<close>.
\<close>

record Notification =
  request_identifier :: string
  content_title :: "string option"
  content_body :: "string option"
  content_data :: jsval

text \<open>
  The history entry. The source declares \<open>type\<close> as a union of six strings but fills it
  with a value cast through \<open>any\<close>, so the field holds an arbitrary value.
\<close>

record NotificationRecord =
  n_id :: string
  n_title :: string
  n_body :: string
  n_data :: jsval
  n_timestamp :: int
  n_read :: bool
  n_type :: jsval

text \<open>\<open>s || d\<close> for a nullable string.\<close>

definition str_or :: "string option \<Rightarrow> string \<Rightarrow> string" where
  "str_or s d = (case s of None \<Rightarrow> d | Some x \<Rightarrow> if x = [] then d else x)"

text \<open>
  The component's state: for each user id the AsyncStorage item kept under the key
  \<open>notifications_\<close> followed by that id (\<open>None\<close> when there is no item), and the React
  state \<open>notifications\<close>. A stored item is the list that \<open>JSON.stringify\<close> wrote; parsing
  it back gives the same records.
\<close>

record hist_state =
  storage :: "string \<Rightarrow> NotificationRecord list option"
  notifications :: "NotificationRecord list"

text \<open>
  An AsyncStorage call may reject; the surrounding \<open>try\<close>/\<open>catch\<close> then logs and
  returns. The fault of one call of an operation is a parameter.
\<close>

datatype storage_fault = NoFault | GetItemRejects | SetItemRejects | RemoveItemRejects

text \<open>\<open>stored ? JSON.parse(stored) : []\<close>\<close>

definition stored_list :: "hist_state \<Rightarrow> string \<Rightarrow> NotificationRecord list" where
  "stored_list st uid = (case storage st uid of None \<Rightarrow> [] | Some xs \<Rightarrow> xs)"

text \<open>
  \<open>xs.sort((a, b) => b.timestamp - a.timestamp)\<close>: a stable sort, most recent first.
\<close>

definition sort_desc :: "NotificationRecord list \<Rightarrow> NotificationRecord list" where
  "sort_desc xs = sort_key (\<lambda>n. - n_timestamp n) xs"

definition loadNotificationHistory :: "storage_fault \<Rightarrow> string \<Rightarrow> hist_state \<Rightarrow> hist_state" where
  "loadNotificationHistory fault uid st =
     (if fault = GetItemRejects then st
      else case storage st uid of
             None \<Rightarrow> st
           | Some parsed \<Rightarrow> st\<lparr>notifications := sort_desc parsed\<rparr>)"

subsection \<open>addNotificationToHistory\<close>

text \<open>
  The candidate record (\<open>newNotif\<close>). \<open>Date.now()\<close> is the parameter \<open>now\<close>: all the
  readings of the clock within one call are taken at the same instant.
\<close>

definition newNotif :: "int \<Rightarrow> Notification \<Rightarrow> NotificationRecord" where
  "newNotif now notification =
     \<lparr> n_id = request_identifier notification,
       n_title = str_or (content_title notification) ''Notification'',
       n_body = str_or (content_body notification) [],
       n_data = content_data notification,
       n_timestamp = now,
       n_read = False,
       n_type = js_or (opt_get (content_data notification) ''type'') (JStr ''other'') \<rparr>"

text \<open>The predicate given to \<open>existing.find\<close>.\<close>

definition is_recent_chat :: "int \<Rightarrow> jsval \<Rightarrow> NotificationRecord \<Rightarrow> bool" where
  "is_recent_chat now conversationId n \<longleftrightarrow>
     strict_eq (n_type n) (JStr ''chat'') \<and>
     strict_eq (opt_get (n_data n) ''conversationId'') conversationId \<and>
     now - n_timestamp n < 60000"

text \<open>The function given to \<open>existing.map\<close> on a hit.\<close>

definition refresh :: "NotificationRecord \<Rightarrow> NotificationRecord \<Rightarrow> NotificationRecord \<Rightarrow> NotificationRecord" where
  "refresh recentChat new n =
     (if n_id n = n_id recentChat then n\<lparr>n_body := n_body new, n_timestamp := n_timestamp new\<rparr> else n)"

definition addNotificationToHistory ::
  "storage_fault \<Rightarrow> int \<Rightarrow> string \<Rightarrow> Notification \<Rightarrow> hist_state \<Rightarrow> hist_state" where
  "addNotificationToHistory fault now uid notification st =
     (let new = newNotif now notification in
      if fault = GetItemRejects then st
      else
        let existing = stored_list st uid;
            recentChat =
              (if strict_eq (n_type new) (JStr ''chat'')
               then find (is_recent_chat now (opt_get (n_data new) ''conversationId'')) existing
               else None)
        in case recentChat of
             Some r \<Rightarrow>
               (let updated = map (refresh r new) existing in
                if fault = SetItemRejects then st
                else st\<lparr>storage := (storage st)(uid := Some updated),
                        notifications := sort_desc updated\<rparr>)
           | None \<Rightarrow>
               (let updated = take 100 (new # existing) in
                if fault = SetItemRejects then st
                else st\<lparr>storage := (storage st)(uid := Some updated),
                        notifications := updated\<rparr>))"

subsection \<open>markAsRead, clearAll, handleNotificationPress\<close>

text \<open>
  \<open>markAsRead\<close> sets the React state first and then writes it to storage, so a rejected
  write leaves the in-memory list updated.
\<close>

definition markAsRead :: "storage_fault \<Rightarrow> string \<Rightarrow> string \<Rightarrow> hist_state \<Rightarrow> hist_state" where
  "markAsRead fault uid ident st =
     (let updated = map (\<lambda>n. if n_id n = ident then n\<lparr>n_read := True\<rparr> else n) (notifications st)
      in if fault = SetItemRejects then st\<lparr>notifications := updated\<rparr>
         else st\<lparr>storage := (storage st)(uid := Some updated), notifications := updated\<rparr>)"

definition clearAll :: "storage_fault \<Rightarrow> string \<Rightarrow> hist_state \<Rightarrow> hist_state" where
  "clearAll fault uid st =
     (if fault = RemoveItemRejects then st
      else st\<lparr>storage := (storage st)(uid := None), notifications := []\<rparr>)"

text \<open>
  The \<open>switch\<close> of \<open>handleNotificationPress\<close>: the arguments of \<open>nav.navigate\<close>, or
  \<open>None\<close> when no case matches (the switch has no default).
\<close>

definition destination :: "jsval \<Rightarrow> (string \<times> string) option" where
  "destination t =
     (if strict_eq t (JStr ''chat'') then Some (''MainTabs'', ''Chat'')
      else if strict_eq t (JStr ''medication'') \<or> strict_eq t (JStr ''prescription'')
        then Some (''MainTabs'', ''Medications'')
      else if strict_eq t (JStr ''appointment'') then Some (''MainTabs'', ''Home'')
      else if strict_eq t (JStr ''emergency'') then Some (''MainTabs'', ''Maps'')
      else None)"

text \<open>
  \<open>handleNotificationPress\<close> calls \<open>markAsRead(notif.id)\<close> without awaiting it and then
  runs the \<open>switch\<close>. The async \<open>markAsRead\<close> runs up to its \<open>await\<close> inside that call:
  it computes the updated list, calls \<open>setNotifications\<close> with it and calls
  \<open>AsyncStorage.setItem\<close>; the write is then pending. Control returns, the \<open>switch\<close> calls
  \<open>nav.navigate\<close>, and the handler ends. Only afterwards does the pending write settle:
  it stores the list, or it rejects and the rejection is logged.
\<close>

datatype press_step =
    CallSetNotifications "NotificationRecord list"
  | CallSetItem string "NotificationRecord list"
  | CallNavigate string string
  | SetItemSettles bool

text \<open>
  The part of \<open>markAsRead\<close> before its \<open>await\<close>: the state it leaves (the stored items
  are untouched), the calls it has made, and the write it has issued (key and list).
\<close>

definition markAsRead_call ::
  "string \<Rightarrow> string \<Rightarrow> hist_state \<Rightarrow> hist_state \<times> press_step list \<times> NotificationRecord list" where
  "markAsRead_call uid ident st =
     (let updated = map (\<lambda>n. if n_id n = ident then n\<lparr>n_read := True\<rparr> else n) (notifications st)
      in (st\<lparr>notifications := updated\<rparr>,
          [CallSetNotifications updated, CallSetItem (''notifications_'' @ uid) updated],
          updated))"

text \<open>The part of \<open>markAsRead\<close> after its \<open>await\<close>: the pending write settles.\<close>

definition markAsRead_settle ::
  "storage_fault \<Rightarrow> string \<Rightarrow> NotificationRecord list \<Rightarrow> hist_state \<Rightarrow> hist_state \<times> press_step list" where
  "markAsRead_settle fault uid pending st =
     (if fault = SetItemRejects then (st, [SetItemSettles False])
      else (st\<lparr>storage := (storage st)(uid := Some pending)\<rparr>, [SetItemSettles True]))"

text \<open>
  The outcome of a press: the calls in the order they happen, the arguments of
  \<open>nav.navigate\<close> (if it is called), the state at the moment \<open>nav.navigate\<close> is called,
  and the state once the pending write has settled.
\<close>

record press_outcome =
  steps :: "press_step list"
  navigation :: "(string \<times> string) option"
  at_navigation :: hist_state
  after_write :: hist_state

definition handleNotificationPress ::
  "storage_fault \<Rightarrow> string \<Rightarrow> NotificationRecord \<Rightarrow> hist_state \<Rightarrow> press_outcome" where
  "handleNotificationPress fault uid notif st =
     (let (st1, steps1, pending) = markAsRead_call uid (n_id notif) st;
          nav = destination (n_type notif);
          steps2 = (case nav of None \<Rightarrow> [] | Some (name, screen) \<Rightarrow> [CallNavigate name screen]);
          (st2, steps3) = markAsRead_settle fault uid pending st1
      in \<lparr> steps = steps1 @ steps2 @ steps3, navigation = nav,
           at_navigation = st1, after_write = st2 \<rparr>)"

section \<open>NotificationService.ts\<close>

subsection \<open>The service, the platform and what the service does to it\<close>

text \<open>The service object; the two listener fields play no part in what follows.\<close>

record NotificationService =
  expoPushToken :: "string option"

text \<open>
  \<open>NotificationData\<close>: the \<open>type\<close> is one of four strings (\<open>category_name\<close> gives the
  string); \<open>data\<close> is optional and untyped, \<open>JUndefined\<close> when omitted.
\<close>

datatype category = Chat | Appointment | Medication | Emergency

fun category_name :: "category \<Rightarrow> string" where
  "category_name Chat = ''chat''"
| "category_name Appointment = ''appointment''"
| "category_name Medication = ''medication''"
| "category_name Emergency = ''emergency''"

record NotificationData =
  nd_type :: category
  nd_title :: string
  nd_body :: string
  nd_data :: jsval

text \<open>A number that is whole or \<open>NaN\<close>.\<close>

datatype js_num = NaN | Num int

text \<open>
  The two trigger shapes the service builds: \<open>{type: 'timeInterval', seconds, repeats}\<close>
  and \<open>{type: 'calendar', hour, minute, repeats}\<close>.
\<close>

datatype trigger = TimeInterval js_num bool | Calendar int int bool

datatype priority = PriorityMax | PriorityHigh

text \<open>The argument of \<open>Notifications.scheduleNotificationAsync\<close>.\<close>

record schedule_request =
  rq_title :: string
  rq_body :: string
  rq_data :: jsval
  rq_sound :: string
  rq_priority :: priority
  rq_channelId :: "string option"
  rq_trigger :: "trigger option"

text \<open>
  The calls the service makes on its environment, in the order it makes them: the console
  (with the level), the expo-notifications module and \<open>fetch\<close> (URL, \<open>Cookie\<close> header, and
  the \<open>token\<close> and \<open>deviceType\<close> of the JSON body).
\<close>

datatype effect =
    Console string
  | GetPermissionsAsync
  | RequestPermissionsAsync
  | SetNotificationChannelAsync string
  | GetExpoPushTokenAsync string
  | ScheduleNotificationAsync schedule_request
  | Fetch string string string string

subsection \<open>registerForPushNotifications\<close>

text \<open>
  What the platform answers during one call: \<open>Device.isDevice\<close>,
  \<open>Constants.appOwnership\<close>, \<open>Platform.OS\<close>, the permission status read and the one
  requested (or a rejection), the channels whose creation rejects, the configured
  project id, and the token (or the message of the rejection).
\<close>

record push_env =
  isDevice :: bool
  appOwnership :: "string option"
  platformOS :: string
  getPermissions :: "js_error + string"
  requestPermissions :: "js_error + string"
  channelRejects :: "string \<Rightarrow> bool"
  projectId :: "string option"
  getExpoPushToken :: "string option + string"

text \<open>\<open>s.includes(sub)\<close>\<close>

primrec js_includes :: "string \<Rightarrow> string \<Rightarrow> bool" where
  "js_includes [] sub = (sub = [])"
| "js_includes (c # cs) sub = (take (length sub) (c # cs) = sub \<or> js_includes cs sub)"

text \<open>\<open>createNotificationChannels\<close>: the four channels in order, up to the first rejection.\<close>

fun set_channels :: "(string \<Rightarrow> bool) \<Rightarrow> string list \<Rightarrow> effect list \<times> bool" where
  "set_channels rej [] = ([], True)"
| "set_channels rej (c # cs) =
     (if rej c then ([SetNotificationChannelAsync c], False)
      else (let (es, ok) = set_channels rej cs in (SetNotificationChannelAsync c # es, ok)))"

definition createNotificationChannels :: "push_env \<Rightarrow> effect list \<times> bool" where
  "createNotificationChannels env =
     set_channels (channelRejects env) [''chat'', ''appointment'', ''medication'', ''emergency'']"

text \<open>The three places that store and return the sentinel.\<close>

definition local_only ::
  "NotificationService \<Rightarrow> effect list \<Rightarrow> string option \<times> NotificationService \<times> effect list" where
  "local_only svc es = (Some ''local-only'', svc\<lparr>expoPushToken := Some ''local-only''\<rparr>, es)"

definition registerForPushNotifications ::
  "push_env \<Rightarrow> NotificationService \<Rightarrow> string option \<times> NotificationService \<times> effect list" where
  "registerForPushNotifications env svc =
     (if \<not> isDevice env \<or> appOwnership env = Some ''expo'' then (None, svc, [Console ''log''])
      else case getPermissions env of
        Inl e \<Rightarrow> local_only svc [GetPermissionsAsync, Console ''error'']
      | Inr existingStatus \<Rightarrow>
         (let (es1, requested) =
                (if existingStatus \<noteq> ''granted''
                 then ([GetPermissionsAsync, RequestPermissionsAsync], requestPermissions env)
                 else ([GetPermissionsAsync], Inr existingStatus))
          in case requested of
               Inl e \<Rightarrow> local_only svc (es1 @ [Console ''error''])
             | Inr finalStatus \<Rightarrow>
                 if finalStatus \<noteq> ''granted'' then (None, svc, es1 @ [Console ''log''])
                 else
                   (let (es2, created) =
                          (if platformOS env = ''android'' then createNotificationChannels env
                           else ([], True))
                    in if \<not> created then local_only svc (es1 @ es2 @ [Console ''error''])
                       else case projectId env of
                           None \<Rightarrow> local_only svc (es1 @ es2 @ [Console ''warn''])
                         | Some p \<Rightarrow>
                             if p = [] then local_only svc (es1 @ es2 @ [Console ''warn''])
                             else case getExpoPushToken env of
                                 Inr token \<Rightarrow>
                                   (Some token, svc\<lparr>expoPushToken := Some token\<rparr>,
                                    es1 @ es2 @ [GetExpoPushTokenAsync p, Console ''log''])
                               | Inl message \<Rightarrow>
                                   (let firebase =
                                      (case message of
                                         None \<Rightarrow> False
                                       | Some m \<Rightarrow> js_includes m ''FirebaseApp'' \<or> js_includes m ''FCM''
                                                   \<or> js_includes m ''Firebase'')
                                    in local_only svc
                                         (es1 @ es2 @ GetExpoPushTokenAsync p #
                                            (if firebase then [Console ''warn'', Console ''warn'']
                                             else [Console ''error'']))))))"

subsection \<open>registerPushTokenWithBackend\<close>

text \<open>
  What \<open>fetch\<close> does: it rejects, or it resolves to a response with a status and a body;
  the body is \<open>None\<close> when \<open>response.json()\<close> rejects, the parsed value otherwise.
\<close>

datatype fetch_outcome = FetchRejects | Response nat "jsval option"

record backend_env =
  backend_os :: string
  api_url :: "string option"
  fetch_outcome :: fetch_outcome

definition deviceType :: "string \<Rightarrow> string" where
  "deviceType os = (if os = ''android'' then ''android'' else if os = ''ios'' then ''ios'' else ''web'')"

text \<open>
  The result is the value the promise resolves to; every exception raised inside the
  \<open>try\<close> block (a rejected \<open>fetch\<close>, a rejected \<open>response.json()\<close>, a TypeError when the
  body is \<open>null\<close>) is caught and turned into \<open>false\<close>.
\<close>

definition registerPushTokenWithBackend ::
  "backend_env \<Rightarrow> NotificationService \<Rightarrow> string \<Rightarrow> string \<Rightarrow> jsval \<times> effect list" where
  "registerPushTokenWithBackend env svc userId sessionToken =
     (case expoPushToken svc of
        None \<Rightarrow> (JBool False, [Console ''error''])
      | Some token \<Rightarrow>
          if token = [] then (JBool False, [Console ''error''])
          else
            (let request =
                   Fetch (str_or (api_url env) ''https://palliative-care.vercel.app''
                            @ ''/api/notifications/register'')
                         (''bl_session='' @ sessionToken) token (deviceType (backend_os env))
             in case fetch_outcome env of
                  FetchRejects \<Rightarrow> (JBool False, [request, Console ''error''])
                | Response status body \<Rightarrow>
                    (case body of
                       None \<Rightarrow> (JBool False, [request, Console ''error''])
                     | Some data \<Rightarrow>
                         (case get_prop data ''success'' of
                            Inl e \<Rightarrow> (JBool False, [request, Console ''error''])
                          | Inr success \<Rightarrow> (js_or success (JBool False), [request])))))"

subsection \<open>scheduleNotification and its builders\<close>

record schedule_env =
  schedule_os :: string
  scheduleResult :: "js_error + string"

definition scheduleNotification ::
  "schedule_env \<Rightarrow> NotificationData \<Rightarrow> trigger option \<Rightarrow> string option \<times> effect list" where
  "scheduleNotification env notificationData trigger =
     (let channelId = category_name (nd_type notificationData);
          request =
            \<lparr> rq_title = nd_title notificationData,
              rq_body = nd_body notificationData,
              rq_data = js_or (nd_data notificationData) (JObj []),
              rq_sound = ''default'',
              rq_priority = (if nd_type notificationData = Emergency then PriorityMax else PriorityHigh),
              rq_channelId = (if schedule_os env = ''android'' then Some channelId else None),
              rq_trigger = trigger \<rparr>
      in case scheduleResult env of
           Inl e \<Rightarrow> (None, [ScheduleNotificationAsync request, Console ''error''])
         | Inr notificationId \<Rightarrow> (Some notificationId, [ScheduleNotificationAsync request]))"

text \<open>
  The numbers of the builders are whole numbers or \<open>NaN\<close>. A \<open>Date\<close> is given by its time
  value: a whole number of milliseconds within 8,640,000,000,000,000 of the epoch, or
  \<open>NaN\<close> for an Invalid Date; \<open>new Date(v)\<close> gives an Invalid Date when \<open>v\<close> is \<open>NaN\<close> or
  outside that range. \<open>minutesBefore\<close> is a whole number. Arithmetic on whole numbers is
  the arithmetic of doubles as long as the values stay within \<open>2^53\<close>; there
  \<open>Math.round(ms / 1000)\<close> (nearest, a tie going up) is \<open>(ms + 500) div 1000\<close>.
  \<open>Math.round\<close> and \<open>Math.max\<close> give \<open>NaN\<close> on \<open>NaN\<close>. \<open>toISOString\<close> raises a
  RangeError on an Invalid Date; on a valid one it is a parameter.
\<close>

definition num_sub :: "js_num \<Rightarrow> js_num \<Rightarrow> js_num" where
  "num_sub a b = (case a of NaN \<Rightarrow> NaN | Num x \<Rightarrow> (case b of NaN \<Rightarrow> NaN | Num y \<Rightarrow> Num (x - y)))"

definition new_Date :: "js_num \<Rightarrow> js_num" where
  "new_Date v =
     (case v of NaN \<Rightarrow> NaN
      | Num x \<Rightarrow> if \<bar>x\<bar> \<le> 8640000000000000 then Num x else NaN)"

definition round_seconds :: "int \<Rightarrow> int" where
  "round_seconds ms = (ms + 500) div 1000"

definition math_round_seconds :: "js_num \<Rightarrow> js_num" where
  "math_round_seconds v = (case v of NaN \<Rightarrow> NaN | Num ms \<Rightarrow> Num (round_seconds ms))"

definition math_max_1 :: "js_num \<Rightarrow> js_num" where
  "math_max_1 v = (case v of NaN \<Rightarrow> NaN | Num n \<Rightarrow> Num (max 1 n))"

definition sendChatNotification ::
  "schedule_env \<Rightarrow> string \<Rightarrow> string \<Rightarrow> string \<Rightarrow> string option \<times> effect list" where
  "sendChatNotification env senderName message conversationId =
     scheduleNotification env
       \<lparr> nd_type = Chat, nd_title = senderName, nd_body = message,
         nd_data = JObj [(''type'', JStr ''chat''), (''conversationId'', JStr conversationId)] \<rparr>
       None"

text \<open>
  The trigger is computed first; the \<open>toISOString\<close> of the payload is evaluated when the
  argument of \<open>scheduleNotification\<close> is built, so on an Invalid Date the builder throws
  before anything is scheduled.
\<close>

definition sendAppointmentNotification ::
  "schedule_env \<Rightarrow> (int \<Rightarrow> string) \<Rightarrow> int \<Rightarrow> string \<Rightarrow> js_num \<Rightarrow> int option \<Rightarrow>
     js_error + string option \<times> effect list" where
  "sendAppointmentNotification env toISOString now appointmentTitle appointmentTime minutesBeforeArg =
     (let minutesBefore = (case minutesBeforeArg of None \<Rightarrow> 15 | Some m \<Rightarrow> m);
          triggerDate = new_Date (num_sub appointmentTime (Num (minutesBefore * 60 * 1000)));
          seconds = math_max_1 (math_round_seconds (num_sub triggerDate (Num now)))
      in case appointmentTime of
           NaN \<Rightarrow> Inl RangeError
         | Num t \<Rightarrow>
             Inr (scheduleNotification env
                    \<lparr> nd_type = Appointment, nd_title = ''Appointment Reminder'',
                      nd_body = ''Your appointment '' @ [CHR 0x22] @ appointmentTitle @ [CHR 0x22]
                                  @ '' is in '' @ string_of_int minutesBefore @ '' minutes'',
                      nd_data = JObj [(''type'', JStr ''appointment''),
                                      (''appointmentTime'', JStr (toISOString t))] \<rparr>
                    (Some (TimeInterval seconds False))))"

definition medication_data :: "string \<Rightarrow> string \<Rightarrow> NotificationData" where
  "medication_data medicationName dosage =
     \<lparr> nd_type = Medication, nd_title = ''Medication Reminder'',
       nd_body = ''Time to take '' @ medicationName @ '' ('' @ dosage @ '')'',
       nd_data = JObj [(''type'', JStr ''medication''), (''medicationName'', JStr medicationName),
                       (''dosage'', JStr dosage)] \<rparr>"

definition sendMedicationNotification ::
  "schedule_env \<Rightarrow> int \<Rightarrow> string \<Rightarrow> string \<Rightarrow> js_num \<Rightarrow> string option \<times> effect list" where
  "sendMedicationNotification env now medicationName dosage time =
     (let seconds = math_max_1 (math_round_seconds (num_sub time (Num now)))
      in scheduleNotification env (medication_data medicationName dosage)
           (Some (TimeInterval seconds False)))"

definition scheduleDailyMedication ::
  "schedule_env \<Rightarrow> string \<Rightarrow> string \<Rightarrow> int \<Rightarrow> int \<Rightarrow> string option \<times> effect list" where
  "scheduleDailyMedication env medicationName dosage hour minute =
     scheduleNotification env (medication_data medicationName dosage)
       (Some (Calendar hour minute True))"

section \<open>A run of the history store\<close>

text \<open>
  One user's history, from an empty store: a chat message of conversation \<open>k\<close> at time 1,
  ninety-nine appointment reminders at times 2 to 100, and a second chat message of the
  same conversation at time 101 (all within one minute).
\<close>

definition demo_chat :: "string \<Rightarrow> Notification" where
  "demo_chat i =
     \<lparr> request_identifier = i, content_title = Some ''Dr. Smith'', content_body = Some ''hello'',
       content_data = JObj [(''type'', JStr ''chat''), (''conversationId'', JStr ''k'')] \<rparr>"

definition demo_appt :: "nat \<Rightarrow> Notification" where
  "demo_appt i =
     \<lparr> request_identifier = CHR ''n'' # string_of_nat i, content_title = Some ''Appointment Reminder'',
       content_body = Some ''soon'', content_data = JObj [(''type'', JStr ''appointment'')] \<rparr>"

definition empty_history :: hist_state where
  "empty_history = \<lparr> storage = (\<lambda>u. None), notifications = [] \<rparr>"

definition add_appts :: "nat list \<Rightarrow> hist_state \<Rightarrow> hist_state" where
  "add_appts ts st = fold (\<lambda>i. addNotificationToHistory NoFault (int i) ''u'' (demo_appt i)) ts st"

definition full_history :: hist_state where
  "full_history =
     addNotificationToHistory NoFault 101 ''u'' (demo_chat ''c1'')
       (add_appts [2..<101]
          (addNotificationToHistory NoFault 1 ''u'' (demo_chat ''c0'') empty_history))"

text \<open>
  A second run: the same chat notification (one request identifier) delivered at time 0
  and again 61 seconds later, before a further message of the conversation arrives.
\<close>

definition first_msg :: Notification where
  "first_msg =
     \<lparr> request_identifier = ''m1'', content_title = Some ''Dr. Smith'', content_body = Some ''one'',
       content_data = JObj [(''type'', JStr ''chat''), (''conversationId'', JStr ''k'')] \<rparr>"

definition next_msg :: Notification where
  "next_msg =
     \<lparr> request_identifier = ''m2'', content_title = Some ''Dr. Smith'', content_body = Some ''two'',
       content_data = JObj [(''type'', JStr ''chat''), (''conversationId'', JStr ''k'')] \<rparr>"

definition twice_delivered :: hist_state where
  "twice_delivered =
     addNotificationToHistory NoFault 61000 ''u'' first_msg
       (addNotificationToHistory NoFault 0 ''u'' first_msg empty_history)"

text \<open>
  A stored history of three records: an appointment reminder and a chat record of
  conversation \<open>k\<close> received at time 0, both read, and an unread chat record of another
  conversation.
\<close>

definition read_appt :: NotificationRecord where
  "read_appt =
     \<lparr> n_id = ''a1'', n_title = ''Appointment Reminder'', n_body = ''soon'',
       n_data = JObj [(''type'', JStr ''appointment'')], n_timestamp = 5000, n_read = True,
       n_type = JStr ''appointment'' \<rparr>"

definition read_chat :: NotificationRecord where
  "read_chat =
     \<lparr> n_id = ''m1'', n_title = ''Dr. Smith'', n_body = ''one'',
       n_data = JObj [(''type'', JStr ''chat''), (''conversationId'', JStr ''k'')], n_timestamp = 0,
       n_read = True, n_type = JStr ''chat'' \<rparr>"

definition other_chat :: NotificationRecord where
  "other_chat =
     \<lparr> n_id = ''m0'', n_title = ''Nurse Lee'', n_body = ''zero'',
       n_data = JObj [(''type'', JStr ''chat''), (''conversationId'', JStr ''j'')], n_timestamp = 0,
       n_read = False, n_type = JStr ''chat'' \<rparr>"

definition busy_history :: hist_state where
  "busy_history =
     \<lparr> storage = (\<lambda>u. if u = ''u'' then Some [read_appt, read_chat, other_chat] else None),
       notifications = [read_appt, read_chat, other_chat] \<rparr>"

text \<open>A history of two records: an unread medication reminder and the appointment reminder.\<close>

definition unread_med :: NotificationRecord where
  "unread_med =
     \<lparr> n_id = ''r1'', n_title = ''Medication Reminder'', n_body = ''Time to take Aspirin (100mg)'',
       n_data = JObj [(''type'', JStr ''medication'')], n_timestamp = 7000, n_read = False,
       n_type = JStr ''medication'' \<rparr>"

definition med_history :: hist_state where
  "med_history =
     \<lparr> storage = (\<lambda>u. if u = ''u'' then Some [unread_med, read_appt] else None),
       notifications = [unread_med, read_appt] \<rparr>"

section \<open>Basic facts about the value model\<close>

lemma strict_eq_JStr [simp]: "strict_eq v (JStr s) \<longleftrightarrow> v = JStr s"
  by (cases v) auto

lemma strict_eq_JStr_left [simp]: "strict_eq (JStr s) v \<longleftrightarrow> v = JStr s"
  by (cases v) auto

lemma js_or_truthy: "truthy a \<Longrightarrow> js_or a b = a"
  by (simp add: js_or_def)

lemma js_or_falsy: "\<not> truthy a \<Longrightarrow> js_or a b = b"
  by (simp add: js_or_def)

lemma newNotif_fields [simp]:
  "n_id (newNotif now nt) = request_identifier nt"
  "n_body (newNotif now nt) = str_or (content_body nt) []"
  "n_title (newNotif now nt) = str_or (content_title nt) ''Notification''"
  "n_data (newNotif now nt) = content_data nt"
  "n_timestamp (newNotif now nt) = now"
  "n_read (newNotif now nt) = False"
  "n_type (newNotif now nt) = js_or (opt_get (content_data nt) ''type'') (JStr ''other'')"
  by (simp_all add: newNotif_def)

section \<open>formatTimestamp\<close>

text \<open>\<open>string_of_nat\<close> writes the decimal digits of its argument.\<close>

lemma digit_char_value: "d < 10 \<Longrightarrow> of_char (digit_char d) = (48 + d :: nat)"
proof -
  assume "d < 10"
  then consider "d = 0" | "d = 1" | "d = 2" | "d = 3" | "d = 4" | "d = 5" | "d = 6" | "d = 7" | "d = 8" | "d = 9"
    by atomize_elim arith
  then show ?thesis
    by cases (simp_all add: digit_char_def)
qed

lemma string_of_nat_decimal:
  "foldl (\<lambda>a c. 10 * a + (of_char c - 48)) 0 (string_of_nat n) = n"
proof (induction n rule: string_of_nat.induct)
  case (1 n)
  show ?case
  proof (cases "n < 10")
    case True
    then show ?thesis
      by (simp add: string_of_nat.simps [of n] digit_char_value)
  next
    case False
    then have "foldl (\<lambda>a c. 10 * a + (of_char c - 48)) 0 (string_of_nat (n div 10)) = n div 10"
      using "1.IH" by simp
    with False show ?thesis
      by (simp add: string_of_nat.simps [of n] digit_char_value)
  qed
qed

lemma string_of_int_1: "string_of_int 1 = ''1''"
  by code_simp

lemma string_of_int_59: "string_of_int 59 = ''59''"
  by code_simp

text \<open>
  C7. The relative-time label is decided by the difference \<open>now - timestamp\<close> alone, in
  buckets closed below and open above: less than 60,000 ms is "Just now"; from 60,000 ms
  and below 3,600,000 ms it is the whole minutes followed by "m ago"; from 3,600,000 ms and
  below 86,400,000 ms the whole hours and "h ago"; from 86,400,000 ms and below
  604,800,000 ms the whole days and "d ago"; from there on the platform's date string of
  the timestamp. At 59,999 ms the label is "Just now", at 60,000 ms "1m ago", at
  3,599,999 ms "59m ago" and at 3,600,000 ms "1h ago".
\<close>

theorem formatTimestamp_buckets:
  "(now - ts < 60000 \<longrightarrow> formatTimestamp f now ts = ''Just now'') \<and>
   (60000 \<le> now - ts \<and> now - ts < 3600000 \<longrightarrow>
      formatTimestamp f now ts = string_of_int ((now - ts) div 60000) @ ''m ago'') \<and>
   (3600000 \<le> now - ts \<and> now - ts < 86400000 \<longrightarrow>
      formatTimestamp f now ts = string_of_int ((now - ts) div 3600000) @ ''h ago'') \<and>
   (86400000 \<le> now - ts \<and> now - ts < 604800000 \<longrightarrow>
      formatTimestamp f now ts = string_of_int ((now - ts) div 86400000) @ ''d ago'') \<and>
   (604800000 \<le> now - ts \<longrightarrow> formatTimestamp f now ts = f ts) \<and>
   (now - ts = 59999 \<longrightarrow> formatTimestamp f now ts = ''Just now'') \<and>
   (now - ts = 60000 \<longrightarrow> formatTimestamp f now ts = ''1m ago'') \<and>
   (now - ts = 3599999 \<longrightarrow> formatTimestamp f now ts = ''59m ago'') \<and>
   (now - ts = 3600000 \<longrightarrow> formatTimestamp f now ts = ''1h ago'')"
  by (simp add: formatTimestamp_def Let_def string_of_int_1 string_of_int_59)

theorem formatTimestamp_buckets_witness:
  "formatTimestamp (\<lambda>t. ''1/1/1970'') 59999 0 = ''Just now'' \<and>
   formatTimestamp (\<lambda>t. ''1/1/1970'') 60000 0 = ''1m ago'' \<and>
   formatTimestamp (\<lambda>t. ''1/1/1970'') 3599999 0 = ''59m ago'' \<and>
   formatTimestamp (\<lambda>t. ''1/1/1970'') 3600000 0 = ''1h ago'' \<and>
   formatTimestamp (\<lambda>t. ''1/1/1970'') 86400000 0 = ''1d ago'' \<and>
   formatTimestamp (\<lambda>t. ''1/1/1970'') 604800000 0 = ''1/1/1970''"
  using formatTimestamp_buckets [of 59999 0 "\<lambda>t. ''1/1/1970''"]
    formatTimestamp_buckets [of 60000 0 "\<lambda>t. ''1/1/1970''"]
    formatTimestamp_buckets [of 3599999 0 "\<lambda>t. ''1/1/1970''"]
    formatTimestamp_buckets [of 3600000 0 "\<lambda>t. ''1/1/1970''"]
    formatTimestamp_buckets [of 86400000 0 "\<lambda>t. ''1/1/1970''"]
    formatTimestamp_buckets [of 604800000 0 "\<lambda>t. ''1/1/1970''"]
  by (simp add: string_of_int_1 string_of_int_59)

section \<open>The candidate record\<close>

text \<open>
  C5, as the code has it. The candidate record built by \<open>addNotificationToHistory\<close> is
  unread and carries the current time as its timestamp. Its category is the payload's
  \<open>type\<close> tag whenever that tag is truthy, recognised or not, and \<open>other\<close> when the tag
  is absent or falsy; so each of the five recognised tags is kept, and so is a tag that
  is none of them.
\<close>

theorem newNotif_candidate:
  "n_read (newNotif now nt) = False \<and>
   n_timestamp (newNotif now nt) = now \<and>
   (truthy (opt_get (content_data nt) ''type'') \<longrightarrow>
      n_type (newNotif now nt) = opt_get (content_data nt) ''type'') \<and>
   (\<not> truthy (opt_get (content_data nt) ''type'') \<longrightarrow> n_type (newNotif now nt) = JStr ''other'') \<and>
   (opt_get (content_data nt) ''type'' = JUndefined \<longrightarrow> n_type (newNotif now nt) = JStr ''other'') \<and>
   (opt_get (content_data nt) ''type''
      \<in> {JStr ''chat'', JStr ''appointment'', JStr ''medication'', JStr ''emergency'', JStr ''prescription''} \<longrightarrow>
      n_type (newNotif now nt) = opt_get (content_data nt) ''type'')"
  by (auto simp add: js_or_def)

theorem newNotif_candidate_witness:
  "n_type (newNotif 5 \<lparr>request_identifier = ''a1'', content_title = Some ''Dr. Smith'',
       content_body = Some ''hello'',
       content_data = JObj [(''type'', JStr ''chat''), (''conversationId'', JStr ''k'')]\<rparr>) = JStr ''chat'' \<and>
   n_type (newNotif 5 \<lparr>request_identifier = ''a2'', content_title = None, content_body = None,
       content_data = JObj [(''test'', JBool True)]\<rparr>) = JStr ''other'' \<and>
   n_type (newNotif 5 \<lparr>request_identifier = ''a3'', content_title = None, content_body = None,
       content_data = JNull\<rparr>) = JStr ''other''"
  using newNotif_candidate [of 5 "\<lparr>request_identifier = ''a1'', content_title = Some ''Dr. Smith'',
       content_body = Some ''hello'',
       content_data = JObj [(''type'', JStr ''chat''), (''conversationId'', JStr ''k'')]\<rparr>"]
    newNotif_candidate [of 5 "\<lparr>request_identifier = ''a2'', content_title = None, content_body = None,
       content_data = JObj [(''test'', JBool True)]\<rparr>"]
    newNotif_candidate [of 5 "\<lparr>request_identifier = ''a3'', content_title = None, content_body = None,
       content_data = JNull\<rparr>"]
  by simp

text \<open>
  The claim as first stated fails: a payload tagged \<open>reminder\<close>, which is none of the five
  recognised categories, gives a candidate whose category is \<open>reminder\<close>, not \<open>other\<close>.
\<close>

theorem newNotif_unrecognised_counterexample:
  "opt_get (content_data \<lparr>request_identifier = ''a4'', content_title = Some ''Reminder'',
        content_body = Some ''drink water'', content_data = JObj [(''type'', JStr ''reminder'')]\<rparr>) ''type''
     \<notin> {JStr ''chat'', JStr ''appointment'', JStr ''medication'', JStr ''emergency'', JStr ''prescription''} \<and>
   n_type (newNotif 5 \<lparr>request_identifier = ''a4'', content_title = Some ''Reminder'',
        content_body = Some ''drink water'', content_data = JObj [(''type'', JStr ''reminder'')]\<rparr>)
     = JStr ''reminder'' \<and>
   n_type (newNotif 5 \<lparr>request_identifier = ''a4'', content_title = Some ''Reminder'',
        content_body = Some ''drink water'', content_data = JObj [(''type'', JStr ''reminder'')]\<rparr>)
     \<noteq> JStr ''other''"
  by (simp add: js_or_def)

section \<open>markAsRead\<close>

lemma markAsRead_notifications:
  "notifications (markAsRead fault uid i st) =
     map (\<lambda>n. if n_id n = i then n\<lparr>n_read := True\<rparr> else n) (notifications st)"
  by (simp add: markAsRead_def Let_def)

lemma mark_twice:
  "(\<lambda>n. if n_id n = i then n\<lparr>n_read := True\<rparr> else n) \<circ>
     (\<lambda>n. if n_id n = i then n\<lparr>n_read := True\<rparr> else n)
   = (\<lambda>n. if n_id n = i then n\<lparr>n_read := True\<rparr> else n)"
  by (auto simp add: fun_eq_iff)

lemma mark_absent:
  "\<forall>n\<in>set xs. n_id n \<noteq> i \<Longrightarrow> map (\<lambda>n. if n_id n = i then n\<lparr>n_read := True\<rparr> else n) xs = xs"
  by (induction xs) simp_all

lemma markAsRead_twice:
  "markAsRead fault uid i (markAsRead fault uid i st) = markAsRead fault uid i st"
  by (simp add: markAsRead_def Let_def mark_twice)

text \<open>
  C9. \<open>markAsRead\<close> is idempotent: a second call with the same id leaves the state (the
  displayed list and the stored items) as the first call left it, and the displayed list
  is the same whatever storage does during either call. It keeps the length of the list,
  sets \<open>read\<close> on each record whose id matches and leaves the others as they are; when no
  record has the id, the list is unchanged.
\<close>

theorem markAsRead_idempotent:
  "markAsRead fault uid i (markAsRead fault uid i st) = markAsRead fault uid i st \<and>
   notifications (markAsRead fault' uid i (markAsRead fault uid i st))
     = notifications (markAsRead fault uid i st) \<and>
   length (notifications (markAsRead fault uid i st)) = length (notifications st) \<and>
   (\<forall>k<length (notifications st).
      notifications (markAsRead fault uid i st) ! k =
        (if n_id (notifications st ! k) = i then (notifications st ! k)\<lparr>n_read := True\<rparr>
         else notifications st ! k)) \<and>
   ((\<forall>n\<in>set (notifications st). n_id n \<noteq> i) \<longrightarrow>
      notifications (markAsRead fault uid i st) = notifications st)"
  by (simp add: markAsRead_twice markAsRead_notifications mark_twice mark_absent)

theorem markAsRead_idempotent_witness:
  "notifications (markAsRead NoFault ''u'' ''b''
      \<lparr>storage = (\<lambda>u. None),
       notifications = [\<lparr>n_id = ''a'', n_title = ''t'', n_body = ''x'', n_data = JNull, n_timestamp = 2,
                          n_read = False, n_type = JStr ''chat''\<rparr>]\<rparr>)
     = [\<lparr>n_id = ''a'', n_title = ''t'', n_body = ''x'', n_data = JNull, n_timestamp = 2,
          n_read = False, n_type = JStr ''chat''\<rparr>] \<and>
   notifications (markAsRead NoFault ''u'' ''a''
      \<lparr>storage = (\<lambda>u. None),
       notifications = [\<lparr>n_id = ''a'', n_title = ''t'', n_body = ''x'', n_data = JNull, n_timestamp = 2,
                          n_read = False, n_type = JStr ''chat''\<rparr>]\<rparr>) ! 0
     = \<lparr>n_id = ''a'', n_title = ''t'', n_body = ''x'', n_data = JNull, n_timestamp = 2,
          n_read = True, n_type = JStr ''chat''\<rparr>"
  using markAsRead_idempotent [of NoFault "''u''" "''b''"
      "\<lparr>storage = (\<lambda>u. None),
       notifications = [\<lparr>n_id = ''a'', n_title = ''t'', n_body = ''x'', n_data = JNull, n_timestamp = 2,
                          n_read = False, n_type = JStr ''chat''\<rparr>]\<rparr>" NoFault]
    markAsRead_idempotent [of NoFault "''u''" "''a''"
      "\<lparr>storage = (\<lambda>u. None),
       notifications = [\<lparr>n_id = ''a'', n_title = ''t'', n_body = ''x'', n_data = JNull, n_timestamp = 2,
                          n_read = False, n_type = JStr ''chat''\<rparr>]\<rparr>" NoFault]
  by simp

section \<open>Push registration\<close>

text \<open>
  C8. On a device that is not physical, or inside Expo Go, \<open>registerForPushNotifications\<close>
  returns \<open>null\<close> at once: the cached token is left as it was and the only thing done is
  one line on the console, so no permission is read or requested, no channel is created
  and no token is asked for.
\<close>

theorem registerForPushNotifications_short_circuit:
  "\<not> isDevice env \<or> appOwnership env = Some ''expo'' \<Longrightarrow>
     registerForPushNotifications env svc = (None, svc, [Console ''log'']) \<and>
     GetPermissionsAsync \<notin> set (snd (snd (registerForPushNotifications env svc))) \<and>
     RequestPermissionsAsync \<notin> set (snd (snd (registerForPushNotifications env svc))) \<and>
     (\<forall>c. SetNotificationChannelAsync c \<notin> set (snd (snd (registerForPushNotifications env svc)))) \<and>
     (\<forall>p. GetExpoPushTokenAsync p \<notin> set (snd (snd (registerForPushNotifications env svc))))"
  by (simp add: registerForPushNotifications_def)

theorem registerForPushNotifications_short_circuit_witness:
  "registerForPushNotifications
      \<lparr>isDevice = False, appOwnership = None, platformOS = ''android'',
       getPermissions = Inr ''granted'', requestPermissions = Inr ''granted'',
       channelRejects = (\<lambda>c. False), projectId = Some ''p1'', getExpoPushToken = Inr ''ExponentPushToken-1''\<rparr>
      \<lparr>expoPushToken = Some ''old''\<rparr>
     = (None, \<lparr>expoPushToken = Some ''old''\<rparr>, [Console ''log'']) \<and>
   registerForPushNotifications
      \<lparr>isDevice = True, appOwnership = Some ''expo'', platformOS = ''android'',
       getPermissions = Inr ''granted'', requestPermissions = Inr ''granted'',
       channelRejects = (\<lambda>c. False), projectId = Some ''p1'', getExpoPushToken = Inr ''ExponentPushToken-1''\<rparr>
      \<lparr>expoPushToken = None\<rparr>
     = (None, \<lparr>expoPushToken = None\<rparr>, [Console ''log''])"
  using registerForPushNotifications_short_circuit [of
      "\<lparr>isDevice = False, appOwnership = None, platformOS = ''android'',
       getPermissions = Inr ''granted'', requestPermissions = Inr ''granted'',
       channelRejects = (\<lambda>c. False), projectId = Some ''p1'', getExpoPushToken = Inr ''ExponentPushToken-1''\<rparr>"
      "\<lparr>expoPushToken = Some ''old''\<rparr>"]
    registerForPushNotifications_short_circuit [of
      "\<lparr>isDevice = True, appOwnership = Some ''expo'', platformOS = ''android'',
       getPermissions = Inr ''granted'', requestPermissions = Inr ''granted'',
       channelRejects = (\<lambda>c. False), projectId = Some ''p1'', getExpoPushToken = Inr ''ExponentPushToken-1''\<rparr>"
      "\<lparr>expoPushToken = None\<rparr>"]
  by simp

text \<open>
  For contrast, the same platform with a physical device outside Expo Go: the permission
  is read, the four channels are created, then the token is asked for and cached.
\<close>

lemma registerForPushNotifications_on_device:
  "registerForPushNotifications
      \<lparr>isDevice = True, appOwnership = None, platformOS = ''android'',
       getPermissions = Inr ''granted'', requestPermissions = Inr ''granted'',
       channelRejects = (\<lambda>c. False), projectId = Some ''p1'', getExpoPushToken = Inr ''ExponentPushToken-1''\<rparr>
      \<lparr>expoPushToken = None\<rparr>
     = (Some ''ExponentPushToken-1'', \<lparr>expoPushToken = Some ''ExponentPushToken-1''\<rparr>,
        [GetPermissionsAsync, SetNotificationChannelAsync ''chat'',
         SetNotificationChannelAsync ''appointment'', SetNotificationChannelAsync ''medication'',
         SetNotificationChannelAsync ''emergency'', GetExpoPushTokenAsync ''p1'', Console ''log''])"
  by (simp add: registerForPushNotifications_def createNotificationChannels_def)

lemma get_prop_cases:
  "get_prop data k = (if data = JUndefined \<or> data = JNull then Inl TypeError else Inr (opt_get data k))"
  by (cases data) simp_all

lemma opt_get_null [simp]: "opt_get JNull k = JUndefined" "opt_get JUndefined k = JUndefined"
  by simp_all

lemma registerPushTokenWithBackend_no_token:
  "expoPushToken svc = None \<or> expoPushToken svc = Some [] \<Longrightarrow>
     registerPushTokenWithBackend env svc userId sessionToken = (JBool False, [Console ''error''])"
  by (auto simp add: registerPushTokenWithBackend_def)

lemma registerPushTokenWithBackend_token:
  assumes "expoPushToken svc = Some token" and "token \<noteq> []"
  shows "fst (registerPushTokenWithBackend env svc userId sessionToken) =
           (case fetch_outcome env of
              FetchRejects \<Rightarrow> JBool False
            | Response status body \<Rightarrow>
                (case body of
                   None \<Rightarrow> JBool False
                 | Some data \<Rightarrow>
                     if truthy (opt_get data ''success'') then opt_get data ''success'' else JBool False))"
proof (cases "fetch_outcome env")
  case FetchRejects
  with assms show ?thesis
    by (simp add: registerPushTokenWithBackend_def Let_def)
next
  case (Response status body)
  show ?thesis
  proof (cases body)
    case None
    with assms Response show ?thesis
      by (simp add: registerPushTokenWithBackend_def Let_def)
  next
    case (Some data)
    with assms Response show ?thesis
      by (simp add: registerPushTokenWithBackend_def Let_def get_prop_cases js_or_def)
  qed
qed

lemma registerPushTokenWithBackend_value:
  "(expoPushToken svc = None \<or> expoPushToken svc = Some [] \<longrightarrow>
      registerPushTokenWithBackend env svc userId sessionToken = (JBool False, [Console ''error''])) \<and>
   (truthy (fst (registerPushTokenWithBackend env svc userId sessionToken)) \<longrightarrow>
      (\<exists>token status data.
         expoPushToken svc = Some token \<and> token \<noteq> [] \<and>
         fetch_outcome env = Response status (Some data) \<and>
         truthy (opt_get data ''success'') \<and>
         fst (registerPushTokenWithBackend env svc userId sessionToken) = opt_get data ''success'')) \<and>
   (\<not> truthy (fst (registerPushTokenWithBackend env svc userId sessionToken)) \<longrightarrow>
      fst (registerPushTokenWithBackend env svc userId sessionToken) = JBool False) \<and>
   (fetch_outcome env = FetchRejects \<longrightarrow>
      fst (registerPushTokenWithBackend env svc userId sessionToken) = JBool False) \<and>
   (\<forall>status. fetch_outcome env = Response status None \<longrightarrow>
      fst (registerPushTokenWithBackend env svc userId sessionToken) = JBool False) \<and>
   (\<forall>status data. fetch_outcome env = Response status (Some data) \<and> \<not> truthy (opt_get data ''success'') \<longrightarrow>
      fst (registerPushTokenWithBackend env svc userId sessionToken) = JBool False) \<and>
   (\<forall>token status data.
      expoPushToken svc = Some token \<and> token \<noteq> [] \<and>
      fetch_outcome env = Response status (Some data) \<and> truthy (opt_get data ''success'') \<longrightarrow>
      fst (registerPushTokenWithBackend env svc userId sessionToken) = opt_get data ''success'')"
proof (cases "expoPushToken svc = None \<or> expoPushToken svc = Some []")
  case True
  have r: "registerPushTokenWithBackend env svc userId sessionToken = (JBool False, [Console ''error''])"
    using True by (rule registerPushTokenWithBackend_no_token)
  from True show ?thesis
    unfolding r by auto
next
  case False
  then obtain token where t: "expoPushToken svc = Some token" "token \<noteq> []"
    by (cases "expoPushToken svc") auto
  note r = registerPushTokenWithBackend_token [OF t, of env userId sessionToken]
  show ?thesis
  proof (cases "fetch_outcome env")
    case FetchRejects
    with t r show ?thesis
      by simp
  next
    case (Response status body)
    show ?thesis
    proof (cases body)
      case None
      with t r Response show ?thesis
        by simp
    next
      case (Some data)
      with t r Response show ?thesis
        by simp
    qed
  qed
qed

lemma registerPushTokenWithBackend_request:
  assumes "expoPushToken svc = Some token" and "token \<noteq> []"
  shows "\<exists>rest. snd (registerPushTokenWithBackend env svc userId sessionToken) =
           Fetch (str_or (api_url env) ''https://palliative-care.vercel.app'' @ ''/api/notifications/register'')
             (''bl_session='' @ sessionToken) token (deviceType (backend_os env)) # rest \<and>
           (rest = [] \<or> rest = [Console ''error''])"
proof (cases "fetch_outcome env")
  case FetchRejects
  with assms show ?thesis
    by (simp add: registerPushTokenWithBackend_def Let_def)
next
  case (Response status body)
  show ?thesis
  proof (cases body)
    case None
    with assms Response show ?thesis
      by (simp add: registerPushTokenWithBackend_def Let_def)
  next
    case (Some data)
    with assms Response show ?thesis
      by (simp add: registerPushTokenWithBackend_def Let_def get_prop_cases)
  qed
qed

text \<open>
  C3, as the code has it. \<open>registerPushTokenWithBackend\<close> always returns a value. With no
  cached token (none, or the empty string) it returns \<open>false\<close> and makes no request.
  Otherwise it makes exactly one request, a POST of the cached token and the device type
  to the registration endpoint with the session cookie, followed at most by one line on
  the console; its result is truthy only when the reply has a body that parses and whose
  \<open>success\<close> field is truthy, and the result is then that field. A rejected request, a
  body that does not parse, or a body without a truthy \<open>success\<close> gives \<open>false\<close>. The
  status of the reply is not looked at.
\<close>

theorem registerPushTokenWithBackend_result:
  "(expoPushToken svc = None \<or> expoPushToken svc = Some [] \<longrightarrow>
      registerPushTokenWithBackend env svc userId sessionToken = (JBool False, [Console ''error''])) \<and>
   (\<forall>token. expoPushToken svc = Some token \<and> token \<noteq> [] \<longrightarrow>
      (\<exists>rest. snd (registerPushTokenWithBackend env svc userId sessionToken) =
         Fetch (str_or (api_url env) ''https://palliative-care.vercel.app'' @ ''/api/notifications/register'')
           (''bl_session='' @ sessionToken) token (deviceType (backend_os env)) # rest \<and>
         (rest = [] \<or> rest = [Console ''error'']))) \<and>
   (truthy (fst (registerPushTokenWithBackend env svc userId sessionToken)) \<longrightarrow>
      (\<exists>token status data.
         expoPushToken svc = Some token \<and> token \<noteq> [] \<and>
         fetch_outcome env = Response status (Some data) \<and>
         truthy (opt_get data ''success'') \<and>
         fst (registerPushTokenWithBackend env svc userId sessionToken) = opt_get data ''success'')) \<and>
   (\<not> truthy (fst (registerPushTokenWithBackend env svc userId sessionToken)) \<longrightarrow>
      fst (registerPushTokenWithBackend env svc userId sessionToken) = JBool False) \<and>
   (fetch_outcome env = FetchRejects \<longrightarrow>
      fst (registerPushTokenWithBackend env svc userId sessionToken) = JBool False) \<and>
   (\<forall>status. fetch_outcome env = Response status None \<longrightarrow>
      fst (registerPushTokenWithBackend env svc userId sessionToken) = JBool False) \<and>
   (\<forall>status data. fetch_outcome env = Response status (Some data) \<and> \<not> truthy (opt_get data ''success'') \<longrightarrow>
      fst (registerPushTokenWithBackend env svc userId sessionToken) = JBool False) \<and>
   (\<forall>token status data.
      expoPushToken svc = Some token \<and> token \<noteq> [] \<and>
      fetch_outcome env = Response status (Some data) \<and> truthy (opt_get data ''success'') \<longrightarrow>
      fst (registerPushTokenWithBackend env svc userId sessionToken) = opt_get data ''success'')"
proof (intro conjI)
  show "expoPushToken svc = None \<or> expoPushToken svc = Some [] \<longrightarrow>
      registerPushTokenWithBackend env svc userId sessionToken = (JBool False, [Console ''error''])"
    by (rule registerPushTokenWithBackend_value [THEN conjunct1])
next
  show "\<forall>token. expoPushToken svc = Some token \<and> token \<noteq> [] \<longrightarrow>
      (\<exists>rest. snd (registerPushTokenWithBackend env svc userId sessionToken) =
         Fetch (str_or (api_url env) ''https://palliative-care.vercel.app'' @ ''/api/notifications/register'')
           (''bl_session='' @ sessionToken) token (deviceType (backend_os env)) # rest \<and>
         (rest = [] \<or> rest = [Console ''error'']))"
  proof (intro allI impI)
    fix token
    assume h: "expoPushToken svc = Some token \<and> token \<noteq> []"
    show "\<exists>rest. snd (registerPushTokenWithBackend env svc userId sessionToken) =
         Fetch (str_or (api_url env) ''https://palliative-care.vercel.app'' @ ''/api/notifications/register'')
           (''bl_session='' @ sessionToken) token (deviceType (backend_os env)) # rest \<and>
         (rest = [] \<or> rest = [Console ''error''])"
      by (rule registerPushTokenWithBackend_request [OF h [THEN conjunct1] h [THEN conjunct2]])
  qed
next
  show "truthy (fst (registerPushTokenWithBackend env svc userId sessionToken)) \<longrightarrow>
      (\<exists>token status data.
         expoPushToken svc = Some token \<and> token \<noteq> [] \<and>
         fetch_outcome env = Response status (Some data) \<and>
         truthy (opt_get data ''success'') \<and>
         fst (registerPushTokenWithBackend env svc userId sessionToken) = opt_get data ''success'')"
    by (rule registerPushTokenWithBackend_value [THEN conjunct2, THEN conjunct1])
next
  show "\<not> truthy (fst (registerPushTokenWithBackend env svc userId sessionToken)) \<longrightarrow>
      fst (registerPushTokenWithBackend env svc userId sessionToken) = JBool False"
    by (rule registerPushTokenWithBackend_value [THEN conjunct2, THEN conjunct2, THEN conjunct1])
next
  show "fetch_outcome env = FetchRejects \<longrightarrow>
      fst (registerPushTokenWithBackend env svc userId sessionToken) = JBool False"
    by (rule registerPushTokenWithBackend_value
        [THEN conjunct2, THEN conjunct2, THEN conjunct2, THEN conjunct1])
next
  show "\<forall>status. fetch_outcome env = Response status None \<longrightarrow>
      fst (registerPushTokenWithBackend env svc userId sessionToken) = JBool False"
    by (rule registerPushTokenWithBackend_value
        [THEN conjunct2, THEN conjunct2, THEN conjunct2, THEN conjunct2, THEN conjunct1])
next
  show "\<forall>status data. fetch_outcome env = Response status (Some data) \<and> \<not> truthy (opt_get data ''success'') \<longrightarrow>
      fst (registerPushTokenWithBackend env svc userId sessionToken) = JBool False"
    by (rule registerPushTokenWithBackend_value
        [THEN conjunct2, THEN conjunct2, THEN conjunct2, THEN conjunct2, THEN conjunct2, THEN conjunct1])
next
  show "\<forall>token status data.
      expoPushToken svc = Some token \<and> token \<noteq> [] \<and>
      fetch_outcome env = Response status (Some data) \<and> truthy (opt_get data ''success'') \<longrightarrow>
      fst (registerPushTokenWithBackend env svc userId sessionToken) = opt_get data ''success''"
    by (rule registerPushTokenWithBackend_value
        [THEN conjunct2, THEN conjunct2, THEN conjunct2, THEN conjunct2, THEN conjunct2, THEN conjunct2])
qed

theorem registerPushTokenWithBackend_result_witness:
  "registerPushTokenWithBackend
      \<lparr>backend_os = ''android'', api_url = None,
       fetch_outcome = Response 200 (Some (JObj [(''success'', JBool True)]))\<rparr>
      \<lparr>expoPushToken = None\<rparr> ''u1'' ''s1'' = (JBool False, [Console ''error'']) \<and>
   fst (registerPushTokenWithBackend
      \<lparr>backend_os = ''android'', api_url = None,
       fetch_outcome = Response 200 (Some (JObj [(''success'', JBool True)]))\<rparr>
      \<lparr>expoPushToken = Some ''ExponentPushToken-1''\<rparr> ''u1'' ''s1'') = JBool True \<and>
   (\<exists>rest. snd (registerPushTokenWithBackend
      \<lparr>backend_os = ''android'', api_url = None,
       fetch_outcome = Response 200 (Some (JObj [(''success'', JBool True)]))\<rparr>
      \<lparr>expoPushToken = Some ''ExponentPushToken-1''\<rparr> ''u1'' ''s1'')
      = Fetch ''https://palliative-care.vercel.app/api/notifications/register'' ''bl_session=s1''
          ''ExponentPushToken-1'' ''android'' # rest \<and>
      (rest = [] \<or> rest = [Console ''error''])) \<and>
   fst (registerPushTokenWithBackend
      \<lparr>backend_os = ''android'', api_url = None, fetch_outcome = FetchRejects\<rparr>
      \<lparr>expoPushToken = Some ''ExponentPushToken-1''\<rparr> ''u1'' ''s1'') = JBool False \<and>
   fst (registerPushTokenWithBackend
      \<lparr>backend_os = ''android'', api_url = None, fetch_outcome = Response 502 None\<rparr>
      \<lparr>expoPushToken = Some ''ExponentPushToken-1''\<rparr> ''u1'' ''s1'') = JBool False"
proof -
  note ok = registerPushTokenWithBackend_result [where userId = "''u1''" and sessionToken = "''s1''"]
  have a: "registerPushTokenWithBackend
      \<lparr>backend_os = ''android'', api_url = None,
       fetch_outcome = Response 200 (Some (JObj [(''success'', JBool True)]))\<rparr>
      \<lparr>expoPushToken = None\<rparr> ''u1'' ''s1'' = (JBool False, [Console ''error''])"
    using ok [where svc = "\<lparr>expoPushToken = None\<rparr>", THEN conjunct1] by simp
  have b: "fst (registerPushTokenWithBackend
      \<lparr>backend_os = ''android'', api_url = None,
       fetch_outcome = Response 200 (Some (JObj [(''success'', JBool True)]))\<rparr>
      \<lparr>expoPushToken = Some ''ExponentPushToken-1''\<rparr> ''u1'' ''s1'') = JBool True"
    using ok [where svc = "\<lparr>expoPushToken = Some ''ExponentPushToken-1''\<rparr>"
        and env = "\<lparr>backend_os = ''android'', api_url = None,
          fetch_outcome = Response 200 (Some (JObj [(''success'', JBool True)]))\<rparr>",
        THEN conjunct2, THEN conjunct2, THEN conjunct2, THEN conjunct2, THEN conjunct2, THEN conjunct2,
        THEN conjunct2, THEN spec, THEN spec, THEN spec,
        of "''ExponentPushToken-1''" 200 "JObj [(''success'', JBool True)]"]
    by simp
  have c: "\<exists>rest. snd (registerPushTokenWithBackend
      \<lparr>backend_os = ''android'', api_url = None,
       fetch_outcome = Response 200 (Some (JObj [(''success'', JBool True)]))\<rparr>
      \<lparr>expoPushToken = Some ''ExponentPushToken-1''\<rparr> ''u1'' ''s1'')
      = Fetch ''https://palliative-care.vercel.app/api/notifications/register'' ''bl_session=s1''
          ''ExponentPushToken-1'' ''android'' # rest \<and>
      (rest = [] \<or> rest = [Console ''error''])"
    using ok [where svc = "\<lparr>expoPushToken = Some ''ExponentPushToken-1''\<rparr>"
        and env = "\<lparr>backend_os = ''android'', api_url = None,
          fetch_outcome = Response 200 (Some (JObj [(''success'', JBool True)]))\<rparr>",
        THEN conjunct2, THEN conjunct1, THEN spec, of "''ExponentPushToken-1''"]
    by (simp add: str_or_def deviceType_def)
  have d: "fst (registerPushTokenWithBackend
      \<lparr>backend_os = ''android'', api_url = None, fetch_outcome = FetchRejects\<rparr>
      \<lparr>expoPushToken = Some ''ExponentPushToken-1''\<rparr> ''u1'' ''s1'') = JBool False"
    using ok [where env = "\<lparr>backend_os = ''android'', api_url = None, fetch_outcome = FetchRejects\<rparr>",
        THEN conjunct2, THEN conjunct2, THEN conjunct2, THEN conjunct2, THEN conjunct1]
    by simp
  have e: "fst (registerPushTokenWithBackend
      \<lparr>backend_os = ''android'', api_url = None, fetch_outcome = Response 502 None\<rparr>
      \<lparr>expoPushToken = Some ''ExponentPushToken-1''\<rparr> ''u1'' ''s1'') = JBool False"
    using ok [where env = "\<lparr>backend_os = ''android'', api_url = None, fetch_outcome = Response 502 None\<rparr>",
        THEN conjunct2, THEN conjunct2, THEN conjunct2, THEN conjunct2, THEN conjunct2, THEN conjunct1,
        THEN spec, of 502]
    by simp
  from a b c d e show ?thesis
    by (intro conjI)
qed

text \<open>
  The claim as first stated fails: a reply with status 500 whose body is
  \<open>{"success": true}\<close> makes the function return \<open>true\<close>.
\<close>

theorem registerPushTokenWithBackend_status_counterexample:
  "registerPushTokenWithBackend
      \<lparr>backend_os = ''android'', api_url = None,
       fetch_outcome = Response 500 (Some (JObj [(''success'', JBool True)]))\<rparr>
      \<lparr>expoPushToken = Some ''ExponentPushToken-1''\<rparr> ''u1'' ''s1''
   = (JBool True,
      [Fetch ''https://palliative-care.vercel.app/api/notifications/register'' ''bl_session=s1''
         ''ExponentPushToken-1'' ''android''])"
  by (simp add: registerPushTokenWithBackend_def str_or_def deviceType_def js_or_def)

section \<open>The history store\<close>

lemma stored_list_upd [simp]:
  "stored_list (st\<lparr>storage := (storage st)(uid := Some xs), notifications := ys\<rparr>) uid = xs"
  by (simp add: stored_list_def)

lemma refresh_fields [simp]:
  "n_id (refresh r new n) = n_id n"
  "n_read (refresh r new n) = n_read n"
  "n_title (refresh r new n) = n_title n"
  "n_type (refresh r new n) = n_type n"
  "n_data (refresh r new n) = n_data n"
  by (simp_all add: refresh_def)

lemma refresh_nth:
  "i < length xs \<Longrightarrow> n_id (xs ! i) = n_id r \<Longrightarrow>
     map (refresh r new) xs ! i = (xs ! i)\<lparr>n_body := n_body new, n_timestamp := n_timestamp new\<rparr>"
  by (simp add: refresh_def)

lemma refresh_ids: "map n_id (map (refresh r new) xs) = map n_id xs"
  by (simp add: comp_def)

lemma find_SomeD: "find P xs = Some r \<Longrightarrow> \<exists>i<length xs. xs ! i = r \<and> P r"
  by (auto simp add: find_Some_iff)

lemma find_exists: "\<exists>r\<in>set xs. P r \<Longrightarrow> \<exists>r. find P xs = Some r"
  by (cases "find P xs") (auto simp add: find_None_iff)

lemma find_skip: "\<forall>x\<in>set xs. \<not> P x \<Longrightarrow> find P (xs @ ys) = find P ys"
  by (induction xs) simp_all

text \<open>The two ways a call without a storage fault ends.\<close>

lemma add_hit:
  assumes "n_type (newNotif now nt) = JStr ''chat''"
    and "find (is_recent_chat now (opt_get (content_data nt) ''conversationId'')) (stored_list st uid) = Some r"
  shows "addNotificationToHistory NoFault now uid nt st =
           st\<lparr>storage := (storage st)(uid := Some (map (refresh r (newNotif now nt)) (stored_list st uid))),
              notifications := sort_desc (map (refresh r (newNotif now nt)) (stored_list st uid))\<rparr>"
  using assms by (simp add: addNotificationToHistory_def Let_def)

lemma add_miss:
  assumes "n_type (newNotif now nt) \<noteq> JStr ''chat'' \<or>
           find (is_recent_chat now (opt_get (content_data nt) ''conversationId'')) (stored_list st uid) = None"
  shows "addNotificationToHistory NoFault now uid nt st =
           st\<lparr>storage := (storage st)(uid := Some (take 100 (newNotif now nt # stored_list st uid))),
              notifications := take 100 (newNotif now nt # stored_list st uid)\<rparr>"
  using assms by (auto simp add: addNotificationToHistory_def Let_def)

lemma add_fault:
  "fault \<noteq> NoFault \<Longrightarrow> fault \<noteq> RemoveItemRejects \<Longrightarrow> addNotificationToHistory fault now uid nt st = st"
  by (cases fault) (simp_all add: addNotificationToHistory_def Let_def split: option.splits)

lemma add_other_users:
  "u \<noteq> uid \<Longrightarrow> storage (addNotificationToHistory fault now uid nt st) u = storage st u"
  by (simp add: addNotificationToHistory_def Let_def split: option.splits)

lemma js_or_JStr [simp]: "s \<noteq> [] \<Longrightarrow> js_or (JStr s) d = JStr s"
  by (simp add: js_or_def)

lemma chat_tag [simp]:
  "opt_get (content_data nt) ''type'' = JStr ''chat'' \<Longrightarrow> n_type (newNotif now nt) = JStr ''chat''"
  by simp

lemma dedup_hit_store:
  assumes ty: "opt_get (content_data nt) ''type'' = JStr ''chat''"
    and cv: "opt_get (content_data nt) ''conversationId'' = JStr c"
    and ex: "\<exists>r\<in>set (stored_list st uid). n_type r = JStr ''chat'' \<and>
               opt_get (n_data r) ''conversationId'' = JStr c \<and> now - n_timestamp r < 60000"
  shows "\<exists>i<length (stored_list st uid).
           n_type (stored_list st uid ! i) = JStr ''chat'' \<and>
           opt_get (n_data (stored_list st uid ! i)) ''conversationId'' = JStr c \<and>
           now - n_timestamp (stored_list st uid ! i) < 60000 \<and>
           (\<exists>upd. storage (addNotificationToHistory NoFault now uid nt st) uid = Some upd \<and>
              length upd = length (stored_list st uid) \<and>
              map n_id upd = map n_id (stored_list st uid) \<and>
              upd ! i = (stored_list st uid ! i)\<lparr>n_body := str_or (content_body nt) [], n_timestamp := now\<rparr>)"
proof -
  let ?xs = "stored_list st uid"
  let ?P = "is_recent_chat now (opt_get (content_data nt) ''conversationId'')"
  let ?new = "newNotif now nt"
  have "\<exists>r\<in>set ?xs. ?P r"
    using ex unfolding is_recent_chat_def cv by simp
  from find_exists [OF this] obtain r where f: "find ?P ?xs = Some r" ..
  from find_SomeD [OF f] obtain i where i: "i < length ?xs" and xi: "?xs ! i = r" and Pr: "?P r"
    by auto
  have ch: "n_type ?new = JStr ''chat''"
    using ty by simp
  have st': "storage (addNotificationToHistory NoFault now uid nt st) uid = Some (map (refresh r ?new) ?xs)"
    unfolding add_hit [OF ch f] by simp
  have a: "map (refresh r ?new) ?xs ! i = (?xs ! i)\<lparr>n_body := str_or (content_body nt) [], n_timestamp := now\<rparr>"
    using refresh_nth [OF i, of r ?new] xi by simp
  have b: "map n_id (map (refresh r ?new) ?xs) = map n_id ?xs"
    by (rule refresh_ids)
  have c: "n_type (?xs ! i) = JStr ''chat'' \<and> opt_get (n_data (?xs ! i)) ''conversationId'' = JStr c \<and>
           now - n_timestamp (?xs ! i) < 60000"
    using Pr unfolding xi is_recent_chat_def cv by simp
  have d: "length (map (refresh r ?new) ?xs) = length ?xs"
    by simp
  show ?thesis
    apply (rule exI [of _ i])
    apply (intro conjI)
        apply (rule i)
       apply (rule c [THEN conjunct1])
      apply (rule c [THEN conjunct2, THEN conjunct1])
     apply (rule c [THEN conjunct2, THEN conjunct2])
    apply (rule exI [of _ "map (refresh r ?new) ?xs"])
    apply (intro conjI st' d b a)
    done
qed

lemma dedup_miss_store:
  assumes ty: "opt_get (content_data nt) ''type'' = JStr ''chat''"
    and cv: "opt_get (content_data nt) ''conversationId'' = JStr c"
    and old: "\<forall>r\<in>set (stored_list st uid). n_type r = JStr ''chat'' \<and>
               opt_get (n_data r) ''conversationId'' = JStr c \<longrightarrow> 60000 \<le> now - n_timestamp r"
  shows "storage (addNotificationToHistory NoFault now uid nt st) uid
           = Some (take 100 (newNotif now nt # stored_list st uid))"
proof -
  have "find (is_recent_chat now (opt_get (content_data nt) ''conversationId'')) (stored_list st uid) = None"
    using old cv by (auto simp add: find_None_iff is_recent_chat_def)
  then show ?thesis
    by (simp add: add_miss)
qed

lemma two_chats:
  assumes e: "storage st uid = None"
    and ty1: "opt_get (content_data nt1) ''type'' = JStr ''chat''"
    and cv1: "opt_get (content_data nt1) ''conversationId'' = JStr c"
    and ty2: "opt_get (content_data nt2) ''type'' = JStr ''chat''"
    and cv2: "opt_get (content_data nt2) ''conversationId'' = JStr c"
  shows "storage (addNotificationToHistory NoFault (t + d) uid nt2 (addNotificationToHistory NoFault t uid nt1 st)) uid
           = (if d < 60000
              then Some [(newNotif t nt1)\<lparr>n_body := str_or (content_body nt2) [], n_timestamp := t + d\<rparr>]
              else Some [newNotif (t + d) nt2, newNotif t nt1])"
proof -
  let ?st1 = "addNotificationToHistory NoFault t uid nt1 st"
  have nil: "stored_list st uid = []"
    using e by (simp add: stored_list_def)
  have s1: "?st1 = st\<lparr>storage := (storage st)(uid := Some [newNotif t nt1]), notifications := [newNotif t nt1]\<rparr>"
    using nil by (simp add: add_miss)
  have l1: "stored_list ?st1 uid = [newNotif t nt1]"
    by (simp add: s1)
  show ?thesis
  proof (cases "d < 60000")
    case True
    have f: "find (is_recent_chat (t + d) (opt_get (content_data nt2) ''conversationId'')) (stored_list ?st1 uid)
               = Some (newNotif t nt1)"
      using True ty1 cv1 cv2 by (simp add: l1 is_recent_chat_def)
    have ch: "n_type (newNotif (t + d) nt2) = JStr ''chat''"
      using ty2 by simp
    show ?thesis
      using True by (simp add: add_hit [OF ch f] l1 refresh_def)
  next
    case False
    have f: "find (is_recent_chat (t + d) (opt_get (content_data nt2) ''conversationId'')) (stored_list ?st1 uid) = None"
      using False by (simp add: l1 is_recent_chat_def)
    show ?thesis
      using False f by (simp add: add_miss l1)
  qed
qed

text \<open>
  C1. Let a chat notification of conversation \<open>c\<close> arrive for user \<open>uid\<close> at time \<open>now\<close>,
  storage answering. If some stored chat record of conversation \<open>c\<close> is less than
  60,000 ms old, then such a record is rewritten where it stands, with the body of the
  notification and \<open>now\<close> as its timestamp, and the stored list keeps its length and its
  ids: nothing is added. If every stored chat record of conversation \<open>c\<close> is 60,000 ms old
  or older, the candidate record is put in front (and the list cut to 100). The items of
  other users are not touched. From an empty history, a second chat notification of the
  conversation arriving \<open>d\<close> ms after the first leaves one record, with the second body,
  when \<open>d < 60000\<close> (10 seconds), and two records when \<open>d \<ge> 60000\<close> (61 seconds).
\<close>

theorem chat_dedup_window:
  assumes ty: "opt_get (content_data nt) ''type'' = JStr ''chat''"
    and cv: "opt_get (content_data nt) ''conversationId'' = JStr c"
  shows
  "((\<exists>r\<in>set (stored_list st uid). n_type r = JStr ''chat'' \<and>
        opt_get (n_data r) ''conversationId'' = JStr c \<and> now - n_timestamp r < 60000) \<longrightarrow>
      (\<exists>i<length (stored_list st uid).
         n_type (stored_list st uid ! i) = JStr ''chat'' \<and>
         opt_get (n_data (stored_list st uid ! i)) ''conversationId'' = JStr c \<and>
         now - n_timestamp (stored_list st uid ! i) < 60000 \<and>
         (\<exists>upd. storage (addNotificationToHistory NoFault now uid nt st) uid = Some upd \<and>
            length upd = length (stored_list st uid) \<and>
            map n_id upd = map n_id (stored_list st uid) \<and>
            upd ! i = (stored_list st uid ! i)\<lparr>n_body := str_or (content_body nt) [], n_timestamp := now\<rparr>))) \<and>
   ((\<forall>r\<in>set (stored_list st uid). n_type r = JStr ''chat'' \<and>
        opt_get (n_data r) ''conversationId'' = JStr c \<longrightarrow> 60000 \<le> now - n_timestamp r) \<longrightarrow>
      storage (addNotificationToHistory NoFault now uid nt st) uid
        = Some (take 100 (newNotif now nt # stored_list st uid))) \<and>
   (\<forall>u. u \<noteq> uid \<longrightarrow> storage (addNotificationToHistory NoFault now uid nt st) u = storage st u) \<and>
   (\<forall>nt2 d. storage st uid = None \<and> opt_get (content_data nt2) ''type'' = JStr ''chat'' \<and>
        opt_get (content_data nt2) ''conversationId'' = JStr c \<longrightarrow>
      storage (addNotificationToHistory NoFault (now + d) uid nt2
                 (addNotificationToHistory NoFault now uid nt st)) uid
        = (if d < 60000
           then Some [(newNotif now nt)\<lparr>n_body := str_or (content_body nt2) [], n_timestamp := now + d\<rparr>]
           else Some [newNotif (now + d) nt2, newNotif now nt]))"
proof (intro conjI impI allI)
  assume "\<exists>r\<in>set (stored_list st uid). n_type r = JStr ''chat'' \<and>
        opt_get (n_data r) ''conversationId'' = JStr c \<and> now - n_timestamp r < 60000"
  then show "\<exists>i<length (stored_list st uid).
         n_type (stored_list st uid ! i) = JStr ''chat'' \<and>
         opt_get (n_data (stored_list st uid ! i)) ''conversationId'' = JStr c \<and>
         now - n_timestamp (stored_list st uid ! i) < 60000 \<and>
         (\<exists>upd. storage (addNotificationToHistory NoFault now uid nt st) uid = Some upd \<and>
            length upd = length (stored_list st uid) \<and>
            map n_id upd = map n_id (stored_list st uid) \<and>
            upd ! i = (stored_list st uid ! i)\<lparr>n_body := str_or (content_body nt) [], n_timestamp := now\<rparr>)"
    by (rule dedup_hit_store [OF ty cv])
next
  assume "\<forall>r\<in>set (stored_list st uid). n_type r = JStr ''chat'' \<and>
        opt_get (n_data r) ''conversationId'' = JStr c \<longrightarrow> 60000 \<le> now - n_timestamp r"
  then show "storage (addNotificationToHistory NoFault now uid nt st) uid
        = Some (take 100 (newNotif now nt # stored_list st uid))"
    by (rule dedup_miss_store [OF ty cv])
next
  fix u assume "u \<noteq> uid"
  then show "storage (addNotificationToHistory NoFault now uid nt st) u = storage st u"
    by (rule add_other_users)
next
  fix nt2 :: Notification and d :: int
  assume h: "storage st uid = None \<and> opt_get (content_data nt2) ''type'' = JStr ''chat'' \<and>
        opt_get (content_data nt2) ''conversationId'' = JStr c"
  show "storage (addNotificationToHistory NoFault (now + d) uid nt2
                 (addNotificationToHistory NoFault now uid nt st)) uid
        = (if d < 60000
           then Some [(newNotif now nt)\<lparr>n_body := str_or (content_body nt2) [], n_timestamp := now + d\<rparr>]
           else Some [newNotif (now + d) nt2, newNotif now nt])"
    by (rule two_chats [OF h [THEN conjunct1] ty cv h [THEN conjunct2, THEN conjunct1]
          h [THEN conjunct2, THEN conjunct2]])
qed

lemma first_msg_tags:
  "opt_get (content_data first_msg) ''type'' = JStr ''chat''"
  "opt_get (content_data first_msg) ''conversationId'' = JStr ''k''"
  "opt_get (content_data next_msg) ''type'' = JStr ''chat''"
  "opt_get (content_data next_msg) ''conversationId'' = JStr ''k''"
  by (simp_all add: first_msg_def next_msg_def)

lemma empty_history_stored [simp]: "storage empty_history u = None" "stored_list empty_history u = []"
  by (simp_all add: empty_history_def stored_list_def)

lemma first_msg_stored:
  "stored_list (addNotificationToHistory NoFault t ''u'' first_msg empty_history) ''u'' = [newNotif t first_msg]"
  by (simp add: add_miss)

theorem chat_dedup_window_witness:
  "storage (addNotificationToHistory NoFault 10000 ''u'' next_msg
              (addNotificationToHistory NoFault 0 ''u'' first_msg empty_history)) ''u''
     = Some [(newNotif 0 first_msg)\<lparr>n_body := ''two'', n_timestamp := 10000\<rparr>] \<and>
   storage (addNotificationToHistory NoFault 61000 ''u'' next_msg
              (addNotificationToHistory NoFault 0 ''u'' first_msg empty_history)) ''u''
     = Some [newNotif 61000 next_msg, newNotif 0 first_msg] \<and>
   (\<exists>upd. storage (addNotificationToHistory NoFault 10000 ''u'' next_msg
              (addNotificationToHistory NoFault 0 ''u'' first_msg empty_history)) ''u'' = Some upd \<and>
      length upd = 1 \<and> n_body (upd ! 0) = ''two'' \<and> n_timestamp (upd ! 0) = 10000)"
proof -
  note two = chat_dedup_window [OF first_msg_tags(1,2), of empty_history "''u''" 0,
      THEN conjunct2, THEN conjunct2, THEN conjunct2, THEN spec, THEN spec, of next_msg]
  have a: "storage (addNotificationToHistory NoFault 10000 ''u'' next_msg
              (addNotificationToHistory NoFault 0 ''u'' first_msg empty_history)) ''u''
     = Some [(newNotif 0 first_msg)\<lparr>n_body := ''two'', n_timestamp := 10000\<rparr>]"
    using two [of 10000] by (simp add: first_msg_tags) (simp add: next_msg_def str_or_def)
  have b: "storage (addNotificationToHistory NoFault 61000 ''u'' next_msg
              (addNotificationToHistory NoFault 0 ''u'' first_msg empty_history)) ''u''
     = Some [newNotif 61000 next_msg, newNotif 0 first_msg]"
    using two [of 61000] by (simp add: first_msg_tags)
  have c: "\<exists>upd. storage (addNotificationToHistory NoFault 10000 ''u'' next_msg
              (addNotificationToHistory NoFault 0 ''u'' first_msg empty_history)) ''u'' = Some upd \<and>
      length upd = 1 \<and> n_body (upd ! 0) = ''two'' \<and> n_timestamp (upd ! 0) = 10000"
    using chat_dedup_window [OF first_msg_tags(3,4),
        of "addNotificationToHistory NoFault 0 ''u'' first_msg empty_history" "''u''" 10000,
        THEN conjunct1]
    by (simp add: first_msg_stored first_msg_tags) (auto simp add: next_msg_def str_or_def)
  from a b c show ?thesis
    by (intro conjI)
qed

text \<open>
  C10, as the code has it. On a deduplication hit with matched record \<open>r\<close>, the stored list
  is rewritten position by position: every record keeps its id, read flag, title,
  category and payload; a record whose id is the id of \<open>r\<close> (the matched record, and any
  other record of that id) gets the incoming body and the current time; a record with
  another id is unchanged. So when no other record shares the id of \<open>r\<close>, only \<open>r\<close>
  changes; a record that was read stays read; the incoming id appears nowhere new.
\<close>

theorem dedup_hit_frame:
  assumes hit: "find (is_recent_chat now (opt_get (content_data nt) ''conversationId'')) (stored_list st uid) = Some r"
    and ty: "opt_get (content_data nt) ''type'' = JStr ''chat''"
  shows "\<exists>upd. storage (addNotificationToHistory NoFault now uid nt st) uid = Some upd \<and>
           length upd = length (stored_list st uid) \<and>
           r \<in> set (stored_list st uid) \<and>
           (\<forall>i<length (stored_list st uid).
              n_id (upd ! i) = n_id (stored_list st uid ! i) \<and>
              n_read (upd ! i) = n_read (stored_list st uid ! i) \<and>
              n_title (upd ! i) = n_title (stored_list st uid ! i) \<and>
              n_type (upd ! i) = n_type (stored_list st uid ! i) \<and>
              n_data (upd ! i) = n_data (stored_list st uid ! i) \<and>
              (n_id (stored_list st uid ! i) = n_id r \<longrightarrow>
                 n_body (upd ! i) = str_or (content_body nt) [] \<and> n_timestamp (upd ! i) = now) \<and>
              (n_id (stored_list st uid ! i) \<noteq> n_id r \<longrightarrow> upd ! i = stored_list st uid ! i))"
proof -
  let ?xs = "stored_list st uid"
  let ?upd = "map (refresh r (newNotif now nt)) ?xs"
  have st': "storage (addNotificationToHistory NoFault now uid nt st) uid = Some ?upd"
    unfolding add_hit [OF chat_tag [OF ty] hit] by simp
  have mem: "r \<in> set ?xs"
    using find_SomeD [OF hit] by auto
  have each: "\<forall>i<length ?xs.
              n_id (?upd ! i) = n_id (?xs ! i) \<and>
              n_read (?upd ! i) = n_read (?xs ! i) \<and>
              n_title (?upd ! i) = n_title (?xs ! i) \<and>
              n_type (?upd ! i) = n_type (?xs ! i) \<and>
              n_data (?upd ! i) = n_data (?xs ! i) \<and>
              (n_id (?xs ! i) = n_id r \<longrightarrow>
                 n_body (?upd ! i) = str_or (content_body nt) [] \<and> n_timestamp (?upd ! i) = now) \<and>
              (n_id (?xs ! i) \<noteq> n_id r \<longrightarrow> ?upd ! i = ?xs ! i)"
    by (simp add: refresh_def)
  have len: "length ?upd = length ?xs"
    by simp
  show ?thesis
    apply (rule exI [of _ ?upd])
    apply (intro conjI st' len mem each)
    done
qed

theorem dedup_hit_frame_witness:
  "\<exists>upd. storage (addNotificationToHistory NoFault 10000 ''u'' next_msg busy_history) ''u'' = Some upd \<and>
     length upd = 3 \<and>
     upd ! 0 = read_appt \<and> n_read (upd ! 0) = True \<and>
     upd ! 2 = other_chat \<and>
     n_id (upd ! 1) = ''m1'' \<and> n_read (upd ! 1) = True \<and> n_title (upd ! 1) = ''Dr. Smith'' \<and>
     n_type (upd ! 1) = JStr ''chat'' \<and> n_data (upd ! 1) = n_data read_chat \<and>
     n_body (upd ! 1) = ''two'' \<and> n_timestamp (upd ! 1) = 10000"
proof -
  have sl: "stored_list busy_history ''u'' = [read_appt, read_chat, other_chat]"
    by (simp add: busy_history_def stored_list_def)
  have hit: "find (is_recent_chat 10000 (opt_get (content_data next_msg) ''conversationId''))
               (stored_list busy_history ''u'') = Some read_chat"
    unfolding sl
    by (simp add: first_msg_tags is_recent_chat_def read_appt_def read_chat_def)
  from dedup_hit_frame [OF hit first_msg_tags(3)]
  obtain upd where
    st: "storage (addNotificationToHistory NoFault 10000 ''u'' next_msg busy_history) ''u'' = Some upd"
    and len: "length upd = length (stored_list busy_history ''u'')"
    and each: "\<forall>i<length (stored_list busy_history ''u'').
              n_id (upd ! i) = n_id (stored_list busy_history ''u'' ! i) \<and>
              n_read (upd ! i) = n_read (stored_list busy_history ''u'' ! i) \<and>
              n_title (upd ! i) = n_title (stored_list busy_history ''u'' ! i) \<and>
              n_type (upd ! i) = n_type (stored_list busy_history ''u'' ! i) \<and>
              n_data (upd ! i) = n_data (stored_list busy_history ''u'' ! i) \<and>
              (n_id (stored_list busy_history ''u'' ! i) = n_id read_chat \<longrightarrow>
                 n_body (upd ! i) = str_or (content_body next_msg) [] \<and> n_timestamp (upd ! i) = 10000) \<and>
              (n_id (stored_list busy_history ''u'' ! i) \<noteq> n_id read_chat \<longrightarrow>
                 upd ! i = stored_list busy_history ''u'' ! i)"
    by blast
  have l3: "length upd = 3"
    using len by (simp add: sl)
  have e0: "upd ! 0 = read_appt"
    using each [rule_format, of 0] by (simp add: sl read_appt_def read_chat_def)
  have e2: "upd ! 2 = other_chat"
    using each [rule_format, of 2] by (simp add: sl other_chat_def read_chat_def)
  have e1: "n_id (upd ! 1) = ''m1'' \<and> n_read (upd ! 1) = True \<and> n_title (upd ! 1) = ''Dr. Smith'' \<and>
     n_type (upd ! 1) = JStr ''chat'' \<and> n_data (upd ! 1) = n_data read_chat \<and>
     n_body (upd ! 1) = ''two'' \<and> n_timestamp (upd ! 1) = 10000"
    using each [rule_format, of 1] by (simp add: sl read_chat_def next_msg_def str_or_def)
  have r0: "n_read (upd ! 0) = True"
    unfolding e0 by (simp add: read_appt_def)
  show ?thesis
    apply (rule exI [of _ upd])
    apply (intro conjI st l3 e0 r0 e2 e1 [THEN conjunct1] e1 [THEN conjunct2, THEN conjunct1]
        e1 [THEN conjunct2, THEN conjunct2, THEN conjunct1]
        e1 [THEN conjunct2, THEN conjunct2, THEN conjunct2, THEN conjunct1]
        e1 [THEN conjunct2, THEN conjunct2, THEN conjunct2, THEN conjunct2, THEN conjunct1]
        e1 [THEN conjunct2, THEN conjunct2, THEN conjunct2, THEN conjunct2, THEN conjunct2, THEN conjunct1]
        e1 [THEN conjunct2, THEN conjunct2, THEN conjunct2, THEN conjunct2, THEN conjunct2, THEN conjunct2])
    done
qed

text \<open>
  The claim as first stated fails where two stored records share an id. After the same
  notification has been recorded twice, 61 seconds apart, the next message of the
  conversation matches the newer of the two records, at index 0, and the older one, at
  index 1, is rewritten as well.
\<close>

theorem dedup_hit_frame_counterexample:
  "stored_list twice_delivered ''u'' = [newNotif 61000 first_msg, newNotif 0 first_msg] \<and>
   find (is_recent_chat 62000 (opt_get (content_data next_msg) ''conversationId''))
      (stored_list twice_delivered ''u'') = Some (newNotif 61000 first_msg) \<and>
   stored_list (addNotificationToHistory NoFault 62000 ''u'' next_msg twice_delivered) ''u'' ! 1
     = (newNotif 0 first_msg)\<lparr>n_body := ''two'', n_timestamp := 62000\<rparr> \<and>
   stored_list (addNotificationToHistory NoFault 62000 ''u'' next_msg twice_delivered) ''u'' ! 1
     \<noteq> stored_list twice_delivered ''u'' ! 1"
proof -
  have miss: "find (is_recent_chat 61000 (opt_get (content_data first_msg) ''conversationId''))
               (stored_list (addNotificationToHistory NoFault 0 ''u'' first_msg empty_history) ''u'') = None"
    by (simp add: first_msg_stored is_recent_chat_def)
  have two: "stored_list twice_delivered ''u'' = [newNotif 61000 first_msg, newNotif 0 first_msg]"
    unfolding twice_delivered_def by (simp add: add_miss [OF disjI2 [OF miss]] first_msg_stored)
  have hit: "find (is_recent_chat 62000 (opt_get (content_data next_msg) ''conversationId''))
      (stored_list twice_delivered ''u'') = Some (newNotif 61000 first_msg)"
    by (simp add: two first_msg_tags is_recent_chat_def)
  have upd: "stored_list (addNotificationToHistory NoFault 62000 ''u'' next_msg twice_delivered) ''u''
      = map (refresh (newNotif 61000 first_msg) (newNotif 62000 next_msg)) (stored_list twice_delivered ''u'')"
    by (simp add: add_hit [OF chat_tag [OF first_msg_tags(3)] hit])
  have third: "stored_list (addNotificationToHistory NoFault 62000 ''u'' next_msg twice_delivered) ''u'' ! 1
     = (newNotif 0 first_msg)\<lparr>n_body := ''two'', n_timestamp := 62000\<rparr>"
    unfolding upd two by (simp add: refresh_def next_msg_def str_or_def)
  have diff: "(newNotif 0 first_msg)\<lparr>n_body := ''two'', n_timestamp := 62000\<rparr> \<noteq> newNotif 0 first_msg"
    by (simp add: newNotif_def)
  show ?thesis
    using two hit third diff by simp
qed

section \<open>The cap of 100 records\<close>

text \<open>
  What holds of the cap on every call: a stored list of at most 100 records stays so, and
  a call that inserts into a full list drops the record at the end of the stored list.
\<close>

lemma add_remove_fault:
  "addNotificationToHistory RemoveItemRejects now uid nt st = addNotificationToHistory NoFault now uid nt st"
  by (simp add: addNotificationToHistory_def)

lemma add_NoFault_cap:
  assumes "length (stored_list st uid) \<le> 100"
  shows "length (stored_list (addNotificationToHistory NoFault now uid nt st) uid) \<le> 100"
proof (cases "n_type (newNotif now nt) = JStr ''chat'' \<and>
    find (is_recent_chat now (opt_get (content_data nt) ''conversationId'')) (stored_list st uid) \<noteq> None")
  case True
  then obtain r where
    "find (is_recent_chat now (opt_get (content_data nt) ''conversationId'')) (stored_list st uid) = Some r"
    by auto
  with True assms show ?thesis
    by (simp add: add_hit)
next
  case False
  then have "n_type (newNotif now nt) \<noteq> JStr ''chat'' \<or>
    find (is_recent_chat now (opt_get (content_data nt) ''conversationId'')) (stored_list st uid) = None"
    by auto
  then show ?thesis
    by (simp add: add_miss)
qed

lemma addNotificationToHistory_cap:
  assumes "length (stored_list st uid) \<le> 100"
  shows "length (stored_list (addNotificationToHistory fault now uid nt st) uid) \<le> 100"
proof (cases fault)
  case NoFault
  with assms show ?thesis
    by (simp add: add_NoFault_cap)
next
  case GetItemRejects
  with assms show ?thesis
    by (simp add: add_fault)
next
  case SetItemRejects
  with assms show ?thesis
    by (simp add: add_fault)
next
  case RemoveItemRejects
  with assms show ?thesis
    by (simp add: add_remove_fault add_NoFault_cap)
qed

lemma addNotificationToHistory_evicts_last:
  assumes "length (stored_list st uid) = 100"
    and "n_type (newNotif now nt) \<noteq> JStr ''chat'' \<or>
      find (is_recent_chat now (opt_get (content_data nt) ''conversationId'')) (stored_list st uid) = None"
  shows "stored_list (addNotificationToHistory NoFault now uid nt st) uid
           = newNotif now nt # butlast (stored_list st uid)"
  using assms(1) by (simp add: add_miss [OF assms(2)] butlast_conv_take)

text \<open>
  The record at the end is the oldest one as long as the stored list is in descending
  order of timestamp.
\<close>

lemma last_is_oldest_when_sorted:
  "sorted (rev (map n_timestamp xs)) \<Longrightarrow> \<forall>x\<in>set xs. n_timestamp (last xs) \<le> n_timestamp x"
  by (cases xs rule: rev_cases) auto

text \<open>The run that fills the store.\<close>

lemma demo_appt_fields [simp]:
  "content_data (demo_appt i) = JObj [(''type'', JStr ''appointment'')]"
  "request_identifier (demo_appt i) = CHR ''n'' # string_of_nat i"
  by (simp_all add: demo_appt_def)

lemma demo_chat_fields [simp]:
  "content_data (demo_chat i) = JObj [(''type'', JStr ''chat''), (''conversationId'', JStr ''k'')]"
  "request_identifier (demo_chat i) = i"
  "content_body (demo_chat i) = Some ''hello''"
  by (simp_all add: demo_chat_def)

lemma appts_not_chat:
  "\<forall>x\<in>set (rev (map (\<lambda>i. newNotif (int i) (demo_appt i)) ts)). n_type x = JStr ''appointment''"
  by auto

lemma appts_keep:
  "map (refresh (newNotif t (demo_chat ''c0'')) new) (rev (map (\<lambda>i. newNotif (int i) (demo_appt i)) ts))
     = rev (map (\<lambda>i. newNotif (int i) (demo_appt i)) ts)"
  by (rule map_idI) (auto simp add: refresh_def)

lemma add_appts_stored:
  "length ts + length (stored_list st ''u'') \<le> 100 \<Longrightarrow>
     stored_list (add_appts ts st) ''u''
       = rev (map (\<lambda>i. newNotif (int i) (demo_appt i)) ts) @ stored_list st ''u''"
proof (induction ts arbitrary: st)
  case Nil
  then show ?case
    by (simp add: add_appts_def)
next
  case (Cons t ts)
  let ?st1 = "addNotificationToHistory NoFault (int t) ''u'' (demo_appt t) st"
  have s1: "stored_list ?st1 ''u'' = newNotif (int t) (demo_appt t) # stored_list st ''u''"
    using Cons.prems by (simp add: add_miss)
  have "stored_list (add_appts ts ?st1) ''u''
          = rev (map (\<lambda>i. newNotif (int i) (demo_appt i)) ts) @ stored_list ?st1 ''u''"
    using Cons.prems by (intro Cons.IH) (simp add: s1)
  then show ?case
    by (simp add: add_appts_def s1)
qed

lemma run_stored:
  assumes "length ts = 99"
  shows "stored_list
           (addNotificationToHistory NoFault 101 ''u'' (demo_chat ''c1'')
              (add_appts ts (addNotificationToHistory NoFault 1 ''u'' (demo_chat ''c0'') empty_history))) ''u''
         = rev (map (\<lambda>i. newNotif (int i) (demo_appt i)) ts)
           @ [(newNotif 1 (demo_chat ''c0''))\<lparr>n_body := ''hello'', n_timestamp := 101\<rparr>]"
proof -
  let ?c0 = "newNotif 1 (demo_chat ''c0'')"
  let ?st1 = "addNotificationToHistory NoFault 1 ''u'' (demo_chat ''c0'') empty_history"
  let ?st2 = "add_appts ts ?st1"
  let ?xs = "rev (map (\<lambda>i. newNotif (int i) (demo_appt i)) ts)"
  let ?P = "is_recent_chat 101 (opt_get (content_data (demo_chat ''c1'')) ''conversationId'')"
  have s1: "stored_list ?st1 ''u'' = [?c0]"
    by (simp add: add_miss)
  have s2: "stored_list ?st2 ''u'' = ?xs @ [?c0]"
    using assms by (simp add: add_appts_stored s1)
  have none: "\<forall>x\<in>set ?xs. \<not> ?P x"
    using appts_not_chat [of ts] by (auto simp add: is_recent_chat_def)
  have hit: "find ?P (stored_list ?st2 ''u'') = Some ?c0"
    unfolding s2 find_skip [OF none] by (simp add: is_recent_chat_def)
  have ch: "n_type (newNotif 101 (demo_chat ''c1'')) = JStr ''chat''"
    by simp
  have "stored_list (addNotificationToHistory NoFault 101 ''u'' (demo_chat ''c1'') ?st2) ''u''
          = map (refresh ?c0 (newNotif 101 (demo_chat ''c1''))) (stored_list ?st2 ''u'')"
    by (simp add: add_hit [OF ch hit])
  also have "\<dots> = ?xs @ [?c0\<lparr>n_body := ''hello'', n_timestamp := 101\<rparr>]"
    unfolding s2 map_append appts_keep by (simp add: refresh_def str_or_def)
  finally show ?thesis .
qed

lemma full_history_stored:
  "stored_list full_history ''u''
     = rev (map (\<lambda>i. newNotif (int i) (demo_appt i)) [2..<101])
       @ [(newNotif 1 (demo_chat ''c0''))\<lparr>n_body := ''hello'', n_timestamp := 101\<rparr>]"
  unfolding full_history_def by (rule run_stored) (simp del: upt_rec_numeral)

text \<open>
  C2 fails on this run. The store holds 100 records; the chat record, first received at
  time 1 and rewritten in place at time 101, stands at the end of the stored list with
  the highest timestamp of all. The 101st insertion, an appointment reminder at time 102,
  hits no duplicate and drops that record; the oldest record, the reminder of time 2,
  stays.
\<close>

theorem cap_evicts_refreshed_chat:
  "length (stored_list full_history ''u'') = 100 \<and>
   last (stored_list full_history ''u'') = (newNotif 1 (demo_chat ''c0''))\<lparr>n_body := ''hello'', n_timestamp := 101\<rparr> \<and>
   n_timestamp (last (stored_list full_history ''u'')) = 101 \<and>
   newNotif 2 (demo_appt 2) \<in> set (stored_list full_history ''u'') \<and>
   n_timestamp (newNotif 2 (demo_appt 2)) = 2 \<and>
   length (stored_list (addNotificationToHistory NoFault 102 ''u'' (demo_appt 102) full_history) ''u'') = 100 \<and>
   stored_list (addNotificationToHistory NoFault 102 ''u'' (demo_appt 102) full_history) ''u''
     = newNotif 102 (demo_appt 102) # butlast (stored_list full_history ''u'') \<and>
   newNotif 2 (demo_appt 2)
     \<in> set (stored_list (addNotificationToHistory NoFault 102 ''u'' (demo_appt 102) full_history) ''u'') \<and>
   last (stored_list full_history ''u'')
     \<notin> set (stored_list (addNotificationToHistory NoFault 102 ''u'' (demo_appt 102) full_history) ''u'')"
proof -
  define xs where "xs = rev (map (\<lambda>i. newNotif (int i) (demo_appt i)) [2..<101])"
  let ?c = "(newNotif 1 (demo_chat ''c0''))\<lparr>n_body := ''hello'', n_timestamp := 101\<rparr>"
  let ?new = "newNotif 102 (demo_appt 102)"
  have full: "stored_list full_history ''u'' = xs @ [?c]"
    unfolding xs_def by (rule full_history_stored)
  have lxs: "length xs = 99"
    unfolding xs_def by (simp del: upt_rec_numeral)
  have appt: "\<forall>x\<in>set xs. n_type x = JStr ''appointment''"
    unfolding xs_def by (rule appts_not_chat)
  have two: "newNotif 2 (demo_appt 2) \<in> set xs"
    unfolding xs_def set_rev set_map set_upt
    by (rule image_eqI [of _ _ 2]) simp_all
  have len: "length (stored_list full_history ''u'') = 100"
    unfolding full using lxs by simp
  have after: "stored_list (addNotificationToHistory NoFault 102 ''u'' (demo_appt 102) full_history) ''u''
     = ?new # butlast (stored_list full_history ''u'')"
    by (rule addNotificationToHistory_evicts_last [OF len]) simp
  have after': "stored_list (addNotificationToHistory NoFault 102 ''u'' (demo_appt 102) full_history) ''u''
     = ?new # xs"
    unfolding after full by simp
  have gone: "?c \<notin> set (?new # xs)"
  proof
    assume "?c \<in> set (?new # xs)"
    then consider "?c = ?new" | "?c \<in> set xs"
      by auto
    then have "n_type ?c = JStr ''appointment''"
    proof cases
      case 1
      then have "n_type ?c = n_type ?new"
        by (rule arg_cong)
      then show ?thesis
        by simp
    next
      case 2
      with appt show ?thesis
        by blast
    qed
    then show False
      by simp
  qed
  have lst: "last (stored_list full_history ''u'') = ?c"
    unfolding full by simp
  have a: "length (stored_list (addNotificationToHistory NoFault 102 ''u'' (demo_appt 102) full_history) ''u'') = 100"
    unfolding after' using lxs by simp
  have b: "newNotif 2 (demo_appt 2)
     \<in> set (stored_list (addNotificationToHistory NoFault 102 ''u'' (demo_appt 102) full_history) ''u'')"
    unfolding after' using two by simp
  have c: "newNotif 2 (demo_appt 2) \<in> set (stored_list full_history ''u'')"
    unfolding full using two by simp
  have d: "last (stored_list full_history ''u'')
     \<notin> set (stored_list (addNotificationToHistory NoFault 102 ''u'' (demo_appt 102) full_history) ''u'')"
    unfolding lst after' by (rule gone)
  have e: "n_timestamp (last (stored_list full_history ''u'')) = 101"
    unfolding lst by simp
  have f: "n_timestamp (newNotif 2 (demo_appt 2)) = 2"
    by simp
  from len lst e c f a after b d show ?thesis
    by (intro conjI)
qed

section \<open>Opening a record\<close>

lemma destination_routes:
  "(t = JStr ''chat'' \<longrightarrow> destination t = Some (''MainTabs'', ''Chat'')) \<and>
   (t = JStr ''medication'' \<or> t = JStr ''prescription'' \<longrightarrow>
      destination t = Some (''MainTabs'', ''Medications'')) \<and>
   (t = JStr ''appointment'' \<longrightarrow> destination t = Some (''MainTabs'', ''Home'')) \<and>
   (t = JStr ''emergency'' \<longrightarrow> destination t = Some (''MainTabs'', ''Maps'')) \<and>
   (t \<notin> {JStr ''chat'', JStr ''medication'', JStr ''prescription'', JStr ''appointment'',
           JStr ''emergency''} \<longrightarrow> destination t = None)"
  by (auto simp add: destination_def)

lemma press_fields:
  "steps (handleNotificationPress fault uid notif st) =
     [CallSetNotifications (map (\<lambda>n. if n_id n = n_id notif then n\<lparr>n_read := True\<rparr> else n) (notifications st)),
      CallSetItem (''notifications_'' @ uid)
        (map (\<lambda>n. if n_id n = n_id notif then n\<lparr>n_read := True\<rparr> else n) (notifications st))]
     @ (case destination (n_type notif) of None \<Rightarrow> [] | Some (name, screen) \<Rightarrow> [CallNavigate name screen])
     @ [SetItemSettles (fault \<noteq> SetItemRejects)]"
  "navigation (handleNotificationPress fault uid notif st) = destination (n_type notif)"
  "at_navigation (handleNotificationPress fault uid notif st) =
     st\<lparr>notifications := map (\<lambda>n. if n_id n = n_id notif then n\<lparr>n_read := True\<rparr> else n) (notifications st)\<rparr>"
  "after_write (handleNotificationPress fault uid notif st) = markAsRead fault uid (n_id notif) st"
  by (simp_all add: handleNotificationPress_def markAsRead_call_def markAsRead_settle_def
      markAsRead_def Let_def)

text \<open>
  The awaited \<open>markAsRead\<close> is its first part followed by the settling of its write.
\<close>

lemma markAsRead_phases:
  "markAsRead fault uid ident st =
     fst (markAsRead_settle fault uid (snd (snd (markAsRead_call uid ident st)))
            (fst (markAsRead_call uid ident st)))"
  by (simp add: markAsRead_def markAsRead_call_def markAsRead_settle_def Let_def)

lemma mark_pressed:
  "notif \<in> set xs \<Longrightarrow>
     notif\<lparr>n_read := True\<rparr> \<in> set (map (\<lambda>n. if n_id n = n_id notif then n\<lparr>n_read := True\<rparr> else n) xs)"
  by (induction xs) auto

text \<open>
  C4, as the code has it. Opening a record routes by its category: chat to Chat,
  medication and prescription to Medications, appointment to Home, emergency to Maps,
  anything else nowhere. \<open>markAsRead\<close> is called for the record's id before \<open>nav.navigate\<close>
  and is not awaited. The calls happen in this order: \<open>setNotifications\<close> with the updated
  list, \<open>AsyncStorage.setItem\<close> with the same list, \<open>nav.navigate\<close> (when there is a
  route), and only then the settling of the write. The updated list has the length of
  the displayed one, each record with the pressed id marked read and every other record
  as it was; a pressed record that is displayed is in it, read. When \<open>nav.navigate\<close> is
  called the displayed list is the updated one and the stored items are still what they
  were. Once the write has settled the stored item is the updated list, unless the write
  was rejected, which leaves the stored items as they were.
\<close>

theorem handleNotificationPress_order:
  fixes fault uid notif st
  defines "out \<equiv> handleNotificationPress fault uid notif st"
    and "upd \<equiv> map (\<lambda>n. if n_id n = n_id notif then n\<lparr>n_read := True\<rparr> else n) (notifications st)"
  shows
  "(n_type notif = JStr ''chat'' \<longrightarrow> navigation out = Some (''MainTabs'', ''Chat'')) \<and>
   (n_type notif = JStr ''medication'' \<or> n_type notif = JStr ''prescription'' \<longrightarrow>
      navigation out = Some (''MainTabs'', ''Medications'')) \<and>
   (n_type notif = JStr ''appointment'' \<longrightarrow> navigation out = Some (''MainTabs'', ''Home'')) \<and>
   (n_type notif = JStr ''emergency'' \<longrightarrow> navigation out = Some (''MainTabs'', ''Maps'')) \<and>
   (n_type notif \<notin> {JStr ''chat'', JStr ''medication'', JStr ''prescription'', JStr ''appointment'',
                     JStr ''emergency''} \<longrightarrow> navigation out = None) \<and>
   steps out =
     [CallSetNotifications upd, CallSetItem (''notifications_'' @ uid) upd]
     @ (case navigation out of None \<Rightarrow> [] | Some (name, screen) \<Rightarrow> [CallNavigate name screen])
     @ [SetItemSettles (fault \<noteq> SetItemRejects)] \<and>
   length upd = length (notifications st) \<and>
   (\<forall>k<length (notifications st).
      upd ! k = (if n_id (notifications st ! k) = n_id notif then (notifications st ! k)\<lparr>n_read := True\<rparr>
                 else notifications st ! k)) \<and>
   (notif \<in> set (notifications st) \<longrightarrow> notif\<lparr>n_read := True\<rparr> \<in> set upd) \<and>
   notifications (at_navigation out) = upd \<and>
   storage (at_navigation out) = storage st \<and>
   notifications (after_write out) = upd \<and>
   (fault \<noteq> SetItemRejects \<longrightarrow> storage (after_write out) = (storage st)(uid := Some upd)) \<and>
   (fault = SetItemRejects \<longrightarrow> storage (after_write out) = storage st)"
proof -
  note r = destination_routes [of "n_type notif"]
  have nav: "navigation out = destination (n_type notif)"
    unfolding out_def by (rule press_fields)
  have st: "steps out =
     [CallSetNotifications upd, CallSetItem (''notifications_'' @ uid) upd]
     @ (case navigation out of None \<Rightarrow> [] | Some (name, screen) \<Rightarrow> [CallNavigate name screen])
     @ [SetItemSettles (fault \<noteq> SetItemRejects)]"
    unfolding nav unfolding out_def upd_def by (rule press_fields)
  have len: "length upd = length (notifications st)"
    unfolding upd_def by simp
  have each: "\<forall>k<length (notifications st).
      upd ! k = (if n_id (notifications st ! k) = n_id notif then (notifications st ! k)\<lparr>n_read := True\<rparr>
                 else notifications st ! k)"
    unfolding upd_def by simp
  have mem: "notif \<in> set (notifications st) \<longrightarrow> notif\<lparr>n_read := True\<rparr> \<in> set upd"
    unfolding upd_def by (simp add: mark_pressed)
  have at1: "notifications (at_navigation out) = upd"
    unfolding out_def upd_def by (simp add: press_fields)
  have at2: "storage (at_navigation out) = storage st"
    unfolding out_def by (simp add: press_fields)
  have af1: "notifications (after_write out) = upd"
    unfolding out_def upd_def by (simp add: press_fields markAsRead_def Let_def)
  have af2: "fault \<noteq> SetItemRejects \<longrightarrow> storage (after_write out) = (storage st)(uid := Some upd)"
    unfolding out_def upd_def by (simp add: press_fields markAsRead_def Let_def)
  have af3: "fault = SetItemRejects \<longrightarrow> storage (after_write out) = storage st"
    unfolding out_def by (simp add: press_fields markAsRead_def Let_def)
  note r1 = r [folded nav, THEN conjunct1]
  note r2 = r [folded nav, THEN conjunct2, THEN conjunct1]
  note r3 = r [folded nav, THEN conjunct2, THEN conjunct2, THEN conjunct1]
  note r4 = r [folded nav, THEN conjunct2, THEN conjunct2, THEN conjunct2, THEN conjunct1]
  note r5 = r [folded nav, THEN conjunct2, THEN conjunct2, THEN conjunct2, THEN conjunct2]
  show ?thesis
    by (intro conjI) (fact r1 r2 r3 r4 r5 st len each mem at1 at2 af1 af2 af3)+
qed

theorem handleNotificationPress_order_witness:
  "navigation (handleNotificationPress NoFault ''u'' unread_med med_history)
     = Some (''MainTabs'', ''Medications'') \<and>
   steps (handleNotificationPress NoFault ''u'' unread_med med_history)
     = [CallSetNotifications [unread_med\<lparr>n_read := True\<rparr>, read_appt],
        CallSetItem ''notifications_u'' [unread_med\<lparr>n_read := True\<rparr>, read_appt],
        CallNavigate ''MainTabs'' ''Medications'',
        SetItemSettles True] \<and>
   notifications (at_navigation (handleNotificationPress NoFault ''u'' unread_med med_history))
     = [unread_med\<lparr>n_read := True\<rparr>, read_appt] \<and>
   storage (after_write (handleNotificationPress NoFault ''u'' unread_med med_history)) ''u''
     = Some [unread_med\<lparr>n_read := True\<rparr>, read_appt] \<and>
   unread_med\<lparr>n_read := True\<rparr>
     \<in> set (notifications (at_navigation (handleNotificationPress NoFault ''u'' unread_med med_history)))"
proof -
  have ids: "n_id unread_med = ''r1''" "n_id read_appt = ''a1''" "n_type unread_med = JStr ''medication''"
    by (simp_all add: unread_med_def read_appt_def)
  have ns: "notifications med_history = [unread_med, read_appt]"
    by (simp add: med_history_def)
  note w = handleNotificationPress_order [of unread_med NoFault "''u''" med_history]
  have nav: "navigation (handleNotificationPress NoFault ''u'' unread_med med_history)
     = Some (''MainTabs'', ''Medications'')"
    using w [THEN conjunct2, THEN conjunct1] by (simp add: ids)
  have st: "steps (handleNotificationPress NoFault ''u'' unread_med med_history)
     = [CallSetNotifications [unread_med\<lparr>n_read := True\<rparr>, read_appt],
        CallSetItem ''notifications_u'' [unread_med\<lparr>n_read := True\<rparr>, read_appt],
        CallNavigate ''MainTabs'' ''Medications'',
        SetItemSettles True]"
    using w [THEN conjunct2, THEN conjunct2, THEN conjunct2, THEN conjunct2, THEN conjunct2,
        THEN conjunct1]
    by (simp add: nav ns ids)
  have at: "notifications (at_navigation (handleNotificationPress NoFault ''u'' unread_med med_history))
     = [unread_med\<lparr>n_read := True\<rparr>, read_appt]"
    using w [THEN conjunct2, THEN conjunct2, THEN conjunct2, THEN conjunct2, THEN conjunct2,
        THEN conjunct2, THEN conjunct2, THEN conjunct2, THEN conjunct2, THEN conjunct1]
    by (simp add: ns ids)
  have af: "storage (after_write (handleNotificationPress NoFault ''u'' unread_med med_history)) ''u''
     = Some [unread_med\<lparr>n_read := True\<rparr>, read_appt]"
    using w [THEN conjunct2, THEN conjunct2, THEN conjunct2, THEN conjunct2, THEN conjunct2,
        THEN conjunct2, THEN conjunct2, THEN conjunct2, THEN conjunct2, THEN conjunct2,
        THEN conjunct2, THEN conjunct2, THEN conjunct1]
    by (simp add: ns ids)
  have mem: "unread_med\<lparr>n_read := True\<rparr>
     \<in> set (notifications (at_navigation (handleNotificationPress NoFault ''u'' unread_med med_history)))"
    unfolding at by simp
  from nav st at af mem show ?thesis
    by (intro conjI)
qed

text \<open>
  The claim as first stated fails for the stored item: when the Medications destination
  is produced for the unread reminder, the item in storage still holds that record
  unread, the write that marks it being pending.
\<close>

theorem handleNotificationPress_pending_write_counterexample:
  "navigation (handleNotificationPress NoFault ''u'' unread_med med_history)
     = Some (''MainTabs'', ''Medications'') \<and>
   storage (at_navigation (handleNotificationPress NoFault ''u'' unread_med med_history)) ''u''
     = Some [unread_med, read_appt] \<and>
   n_read unread_med = False \<and>
   steps (handleNotificationPress NoFault ''u'' unread_med med_history) ! 2
     = CallNavigate ''MainTabs'' ''Medications'' \<and>
   steps (handleNotificationPress NoFault ''u'' unread_med med_history) ! 3 = SetItemSettles True"
  by (simp add: press_fields destination_def med_history_def unread_med_def read_appt_def)

section \<open>Scheduling\<close>

lemma scheduleNotification_effects:
  "\<exists>r rest. snd (scheduleNotification env d trig) = ScheduleNotificationAsync r # rest \<and>
     rq_trigger r = trig \<and> (rest = [] \<or> rest = [Console ''error''])"
  by (cases "scheduleResult env") (simp_all add: scheduleNotification_def Let_def)

lemma round_seconds_late: "ms < 500 \<Longrightarrow> max 1 (round_seconds ms) = 1"
  by (simp add: round_seconds_def max_def)

text \<open>
  With a valid appointment time whose fire time is a valid date too, the appointment
  builder is \<open>scheduleNotification\<close> with a one-shot interval of \<open>max 1 s\<close> seconds.
\<close>

lemma sendAppointmentNotification_valid:
  assumes "\<bar>time - (case mb of None \<Rightarrow> 15 | Some m \<Rightarrow> m) * 60 * 1000\<bar> \<le> 8640000000000000"
  shows "\<exists>D. sendAppointmentNotification env toISO now title (Num time) mb =
           Inr (scheduleNotification env D
                  (Some (TimeInterval
                     (Num (max 1 (round_seconds
                        (time - (case mb of None \<Rightarrow> 15 | Some m \<Rightarrow> m) * 60 * 1000 - now)))) False)))"
  using assms
  by (simp add: sendAppointmentNotification_def Let_def num_sub_def new_Date_def
      math_round_seconds_def math_max_1_def) (rule exI, rule refl)

lemma sendMedicationNotification_valid:
  "sendMedicationNotification env now name dosage (Num time) =
     scheduleNotification env (medication_data name dosage)
       (Some (TimeInterval (Num (max 1 (round_seconds (time - now)))) False))"
  by (simp add: sendMedicationNotification_def Let_def num_sub_def math_round_seconds_def math_max_1_def)

text \<open>
  Outside that range the floor is lost. At the earliest valid date, with the default 15
  minutes, the fire time is an Invalid Date and the interval handed to the platform is
  \<open>NaN\<close> seconds; so it is for a medication time that is an Invalid Date.
\<close>

lemma sendAppointmentNotification_invalid_fire_time:
  "\<exists>D. sendAppointmentNotification env toISO now title (Num (- 8640000000000000)) None =
     Inr (scheduleNotification env D (Some (TimeInterval NaN False)))"
  by (simp add: sendAppointmentNotification_def Let_def num_sub_def new_Date_def
      math_round_seconds_def math_max_1_def) (rule exI, rule refl)

lemma sendMedicationNotification_invalid_time:
  "sendMedicationNotification env now name dosage NaN =
     scheduleNotification env (medication_data name dosage) (Some (TimeInterval NaN False))"
  by (simp add: sendMedicationNotification_def Let_def num_sub_def math_round_seconds_def math_max_1_def)

text \<open>
  C6, as the code has it. \<open>scheduleNotification\<close> hands the trigger it is given to the
  platform unchanged. The floor of one second is applied by the two builders that compute
  a delay, \<open>sendAppointmentNotification\<close> and \<open>sendMedicationNotification\<close>, for dates
  that are valid: when the appointment (or medication) time is a valid date, the fire
  time computed from it is a valid date too, and the fire time is within \<open>2^53\<close> ms of
  now, they schedule a one-shot interval of \<open>max 1 s\<close> seconds, \<open>s\<close> being the rounded
  number of seconds from now to the fire time; the delay is then at least 1, and exactly 1
  when the fire time is now or in the past.
\<close>

theorem schedule_delay_floor:
  "(\<exists>r rest. snd (scheduleNotification env d trig) = ScheduleNotificationAsync r # rest \<and>
      rq_trigger r = trig) \<and>
   (\<bar>time\<bar> \<le> 8640000000000000 \<and>
    \<bar>time - (case mb of None \<Rightarrow> 15 | Some m \<Rightarrow> m) * 60 * 1000\<bar> \<le> 8640000000000000 \<and>
    \<bar>time - (case mb of None \<Rightarrow> 15 | Some m \<Rightarrow> m) * 60 * 1000 - now\<bar> \<le> 9007199254740992 \<longrightarrow>
      (\<exists>out r rest s.
         sendAppointmentNotification env toISO now title (Num time) mb = Inr out \<and>
         snd out = ScheduleNotificationAsync r # rest \<and>
         rq_trigger r = Some (TimeInterval (Num s) False) \<and>
         s = max 1 (round_seconds (time - (case mb of None \<Rightarrow> 15 | Some m \<Rightarrow> m) * 60 * 1000 - now)) \<and>
         1 \<le> s \<and>
         (time - (case mb of None \<Rightarrow> 15 | Some m \<Rightarrow> m) * 60 * 1000 \<le> now \<longrightarrow> s = 1))) \<and>
   (\<bar>time\<bar> \<le> 8640000000000000 \<and> \<bar>time - now\<bar> \<le> 9007199254740992 \<longrightarrow>
      (\<exists>r rest s.
         snd (sendMedicationNotification env now name dosage (Num time))
           = ScheduleNotificationAsync r # rest \<and>
         rq_trigger r = Some (TimeInterval (Num s) False) \<and>
         s = max 1 (round_seconds (time - now)) \<and>
         1 \<le> s \<and>
         (time \<le> now \<longrightarrow> s = 1)))"
proof (intro conjI impI)
  show "\<exists>r rest. snd (scheduleNotification env d trig) = ScheduleNotificationAsync r # rest \<and>
      rq_trigger r = trig"
    using scheduleNotification_effects [of env d trig] by blast
next
  let ?fire = "time - (case mb of None \<Rightarrow> 15 | Some m \<Rightarrow> m) * 60 * 1000"
  let ?s = "max 1 (round_seconds (?fire - now))"
  assume h: "\<bar>time\<bar> \<le> 8640000000000000 \<and> \<bar>?fire\<bar> \<le> 8640000000000000 \<and>
    \<bar>?fire - now\<bar> \<le> 9007199254740992"
  then have "\<bar>?fire\<bar> \<le> 8640000000000000"
    by simp
  from sendAppointmentNotification_valid [OF this, of env toISO now title]
  obtain D where D: "sendAppointmentNotification env toISO now title (Num time) mb
          = Inr (scheduleNotification env D (Some (TimeInterval (Num ?s) False)))" ..
  from scheduleNotification_effects [of env D "Some (TimeInterval (Num ?s) False)"]
  obtain r rest where e:
    "snd (scheduleNotification env D (Some (TimeInterval (Num ?s) False))) = ScheduleNotificationAsync r # rest"
    "rq_trigger r = Some (TimeInterval (Num ?s) False)"
    by auto
  have one: "1 \<le> ?s"
    by simp
  have late: "?fire \<le> now \<longrightarrow> ?s = 1"
    by (simp add: round_seconds_late)
  show "\<exists>out r rest s.
         sendAppointmentNotification env toISO now title (Num time) mb = Inr out \<and>
         snd out = ScheduleNotificationAsync r # rest \<and>
         rq_trigger r = Some (TimeInterval (Num s) False) \<and>
         s = max 1 (round_seconds (?fire - now)) \<and> 1 \<le> s \<and> (?fire \<le> now \<longrightarrow> s = 1)"
    apply (rule exI [of _ "scheduleNotification env D (Some (TimeInterval (Num ?s) False))"])
    apply (rule exI [of _ r])
    apply (rule exI [of _ rest])
    apply (rule exI [of _ ?s])
    apply (intro conjI D e refl one late)
    done
next
  let ?s = "max 1 (round_seconds (time - now))"
  from scheduleNotification_effects [of env "medication_data name dosage" "Some (TimeInterval (Num ?s) False)"]
  obtain r rest where e:
    "snd (sendMedicationNotification env now name dosage (Num time)) = ScheduleNotificationAsync r # rest"
    "rq_trigger r = Some (TimeInterval (Num ?s) False)"
    unfolding sendMedicationNotification_valid by auto
  have one: "1 \<le> ?s"
    by simp
  have late: "time \<le> now \<longrightarrow> ?s = 1"
    by (simp add: round_seconds_late)
  show "\<exists>r rest s.
         snd (sendMedicationNotification env now name dosage (Num time))
           = ScheduleNotificationAsync r # rest \<and>
         rq_trigger r = Some (TimeInterval (Num s) False) \<and>
         s = max 1 (round_seconds (time - now)) \<and> 1 \<le> s \<and> (time \<le> now \<longrightarrow> s = 1)"
    apply (rule exI [of _ r])
    apply (rule exI [of _ rest])
    apply (rule exI [of _ ?s])
    apply (intro conjI e refl one late)
    done
qed

theorem schedule_delay_floor_witness:
  "(\<exists>r rest s. snd (sendMedicationNotification \<lparr>schedule_os = ''android'', scheduleResult = Inr ''id1''\<rparr>
        1000000 ''Aspirin'' ''100mg'' (Num 900000)) = ScheduleNotificationAsync r # rest \<and>
      rq_trigger r = Some (TimeInterval (Num s) False) \<and> s = 1) \<and>
   (\<exists>out r rest s. sendAppointmentNotification \<lparr>schedule_os = ''android'', scheduleResult = Inr ''id1''\<rparr>
        (\<lambda>t. ''1970-01-01T00:15:00.000Z'') 1000000 ''Checkup'' (Num 900000) None = Inr out \<and>
      snd out = ScheduleNotificationAsync r # rest \<and>
      rq_trigger r = Some (TimeInterval (Num s) False) \<and> s = 1)"
  using schedule_delay_floor [where env = "\<lparr>schedule_os = ''android'', scheduleResult = Inr ''id1''\<rparr>"
      and toISO = "\<lambda>t. ''1970-01-01T00:15:00.000Z''" and now = 1000000 and title = "''Checkup''"
      and time = 900000 and mb = None and name = "''Aspirin''" and dosage = "''100mg''"]
  by (simp add: round_seconds_def)

text \<open>
  The claim as first stated fails: \<open>scheduleNotification\<close> called with an interval of zero
  seconds schedules zero seconds, not one.
\<close>

theorem scheduleNotification_zero_delay_counterexample:
  "scheduleNotification \<lparr>schedule_os = ''android'', scheduleResult = Inr ''id1''\<rparr>
      \<lparr>nd_type = Medication, nd_title = ''Medication Reminder'', nd_body = ''Time to take Aspirin (100mg)'',
       nd_data = JObj [(''type'', JStr ''medication'')]\<rparr>
      (Some (TimeInterval (Num 0) False))
   = (Some ''id1'',
      [ScheduleNotificationAsync
         \<lparr>rq_title = ''Medication Reminder'', rq_body = ''Time to take Aspirin (100mg)'',
          rq_data = JObj [(''type'', JStr ''medication'')], rq_sound = ''default'',
          rq_priority = PriorityHigh, rq_channelId = Some ''medication'',
          rq_trigger = Some (TimeInterval (Num 0) False)\<rparr>]) \<and>
   TimeInterval (Num 0) False \<noteq> TimeInterval (Num (max 1 0)) False"
  by (simp add: scheduleNotification_def js_or_def)

end
